theory Spec2Isabelle
  imports Main "HOL-Library.AList" "HOL-Library.Sublist"
begin

section \<open>Python values\<close>

text \<open>
  The logger of \<^verbatim>\<open>litellm/integrations/langfuse/langfuse.py\<close> works on dynamically typed
  data: keyword-argument dictionaries, metadata dictionaries, response objects. Values are
  embedded as one datatype. A \<open>dict\<close> keeps its insertion order, so it is an association
  list with \<open>str\<close> keys; \<open>PObj cls attrs\<close> is an instance of class \<open>cls\<close> with the attributes
  \<open>attrs\<close> (the response classes, \<open>Usage\<close>, \<open>Message\<close>, \<open>datetime\<close>, ...). A \<open>float\<close> is kept
  as an opaque mantissa/exponent pair: no arithmetic is done on it here.
\<close>

datatype pyval =
    PNone
  | PBool bool
  | PInt int
  | PFloat int int
  | PStr string
  | PList "pyval list"
  | PDict "(string \<times> pyval) list"
  | PObj string "(string \<times> pyval) list"

type_synonym pdict = "(string \<times> pyval) list"

text \<open>Exceptions are values; \<open>Inl\<close> of the sum \<open>pyerr + 'a\<close> is a raised exception.\<close>

datatype pyerr =
    AttributeError
  | KeyError
  | TypeError
  | IndexError
  | MaxClientsReached int int
  | ExternalError string

definition bindE :: "pyerr + 'a \<Rightarrow> ('a \<Rightarrow> pyerr + 'b) \<Rightarrow> pyerr + 'b" where
  "bindE m f = (case m of Inl e \<Rightarrow> Inl e | Inr x \<Rightarrow> f x)"

lemma bindE_cong [fundef_cong]:
  "m = m' \<Longrightarrow> (\<And>x. m' = Inr x \<Longrightarrow> f x = f' x) \<Longrightarrow> bindE m f = bindE m' f'"
  by (cases m') (simp_all add: bindE_def)

lemma bindE_simps [simp]:
  "bindE (Inl e) f = Inl e"
  "bindE (Inr x) f = f x"
  by (simp_all add: bindE_def)

subsection \<open>Truth value, \<open>or\<close>, \<open>isinstance\<close>\<close>

fun py_truthy :: "pyval \<Rightarrow> bool" where
  "py_truthy PNone = False"
| "py_truthy (PBool b) = b"
| "py_truthy (PInt i) = (i \<noteq> 0)"
| "py_truthy (PFloat m e) = (m \<noteq> 0)"
| "py_truthy (PStr s) = (s \<noteq> [])"
| "py_truthy (PList xs) = (xs \<noteq> [])"
| "py_truthy (PDict d) = (d \<noteq> [])"
| "py_truthy (PObj c attrs) = True"

definition py_or :: "pyval \<Rightarrow> pyval \<Rightarrow> pyval" where
  "py_or a b = (if py_truthy a then a else b)"

definition isinstance :: "pyval \<Rightarrow> string \<Rightarrow> bool" where
  \<comment> \<open>for the response classes, none of which is a subclass of another\<close>
  "isinstance v cls = (case v of PObj c attrs \<Rightarrow> c = cls | _ \<Rightarrow> False)"

definition is_str :: "pyval \<Rightarrow> bool" where
  "is_str v = (case v of PStr s \<Rightarrow> True | _ \<Rightarrow> False)"

definition is_dict :: "pyval \<Rightarrow> bool" where
  "is_dict v = (case v of PDict d \<Rightarrow> True | _ \<Rightarrow> False)"

definition is_list :: "pyval \<Rightarrow> bool" where
  "is_list v = (case v of PList xs \<Rightarrow> True | _ \<Rightarrow> False)"

definition is_primitive :: "pyval \<Rightarrow> bool" where
  \<comment> \<open>\<^verbatim>\<open>isinstance(value, (str, int, bool, float))\<close>\<close>
  "is_primitive v =
     (case v of PStr s \<Rightarrow> True | PInt i \<Rightarrow> True | PBool b \<Rightarrow> True | PFloat m e \<Rightarrow> True
      | _ \<Rightarrow> False)"

subsection \<open>Dictionaries\<close>

definition dict_get :: "pdict \<Rightarrow> string \<Rightarrow> pyval \<Rightarrow> pyval" where
  "dict_get d k dflt = (case map_of d k of Some v \<Rightarrow> v | None \<Rightarrow> dflt)"

definition dict_set :: "pdict \<Rightarrow> string \<Rightarrow> pyval \<Rightarrow> pdict" where
  \<comment> \<open>\<^verbatim>\<open>d[k] = v\<close>: an existing key keeps its place, a new one goes last\<close>
  "dict_set d k v = AList.update k v d"

definition dict_pop :: "pdict \<Rightarrow> string \<Rightarrow> pyval \<Rightarrow> pyval \<times> pdict" where
  \<comment> \<open>\<^verbatim>\<open>d.pop(k, dflt)\<close>: the value and the dictionary without the key\<close>
  "dict_pop d k dflt = (dict_get d k dflt, AList.delete k d)"

definition dict_keys :: "pdict \<Rightarrow> string list" where
  "dict_keys d = map fst d"

subsection \<open>Attribute and item access on any value\<close>

definition py_get :: "pyval \<Rightarrow> string \<Rightarrow> pyval \<Rightarrow> pyerr + pyval" where
  \<comment> \<open>\<^verbatim>\<open>v.get(k, dflt)\<close>; the classes of litellm define \<open>get\<close> as \<open>getattr\<close> with a default\<close>
  "py_get v k dflt =
     (case v of PDict d \<Rightarrow> Inr (dict_get d k dflt)
      | PObj c attrs \<Rightarrow> Inr (dict_get attrs k dflt)
      | _ \<Rightarrow> Inl AttributeError)"

definition py_getattr :: "pyval \<Rightarrow> string \<Rightarrow> pyval \<Rightarrow> pyval" where
  \<comment> \<open>\<^verbatim>\<open>getattr(v, name, dflt)\<close>\<close>
  "py_getattr v name dflt = (case v of PObj c attrs \<Rightarrow> dict_get attrs name dflt | _ \<Rightarrow> dflt)"

definition py_hasattr :: "pyval \<Rightarrow> string \<Rightarrow> bool" where
  "py_hasattr v name = (case v of PObj c attrs \<Rightarrow> name \<in> set (dict_keys attrs) | _ \<Rightarrow> False)"

definition py_attr :: "pyval \<Rightarrow> string \<Rightarrow> pyerr + pyval" where
  \<comment> \<open>\<^verbatim>\<open>v.name\<close>\<close>
  "py_attr v name =
     (case v of
        PObj c attrs \<Rightarrow> (case map_of attrs name of Some x \<Rightarrow> Inr x | None \<Rightarrow> Inl AttributeError)
      | _ \<Rightarrow> Inl AttributeError)"

definition py_getitem :: "pyval \<Rightarrow> string \<Rightarrow> pyerr + pyval" where
  \<comment> \<open>\<^verbatim>\<open>v[k]\<close> for a string \<open>k\<close>; the classes of litellm define it as \<open>getattr\<close>\<close>
  "py_getitem v k =
     (case v of
        PDict d \<Rightarrow> (case map_of d k of Some x \<Rightarrow> Inr x | None \<Rightarrow> Inl KeyError)
      | PObj c attrs \<Rightarrow> (case map_of attrs k of Some x \<Rightarrow> Inr x | None \<Rightarrow> Inl AttributeError)
      | _ \<Rightarrow> Inl TypeError)"

definition py_setitem :: "pyval \<Rightarrow> string \<Rightarrow> pyval \<Rightarrow> pyerr + pyval" where
  \<comment> \<open>\<^verbatim>\<open>v[k] = x\<close> for a string \<open>k\<close>, returning the updated container\<close>
  "py_setitem v k x = (case v of PDict d \<Rightarrow> Inr (PDict (dict_set d k x)) | _ \<Rightarrow> Inl TypeError)"

definition py_first :: "pyval \<Rightarrow> pyerr + pyval" where
  \<comment> \<open>\<^verbatim>\<open>v[0]\<close>\<close>
  "py_first v =
     (case v of
        PList xs \<Rightarrow> (case xs of [] \<Rightarrow> Inl IndexError | x # _ \<Rightarrow> Inr x)
      | PStr s \<Rightarrow> (case s of [] \<Rightarrow> Inl IndexError | c # _ \<Rightarrow> Inr (PStr [c]))
      | PDict d \<Rightarrow> Inl KeyError
      | _ \<Rightarrow> Inl TypeError)"

definition py_len :: "pyval \<Rightarrow> pyerr + nat" where
  "py_len v =
     (case v of PList xs \<Rightarrow> Inr (length xs) | PStr s \<Rightarrow> Inr (length s)
      | PDict d \<Rightarrow> Inr (length d) | _ \<Rightarrow> Inl TypeError)"

definition py_iter :: "pyval \<Rightarrow> pyerr + pyval list" where
  \<comment> \<open>the elements \<^verbatim>\<open>for x in v\<close> runs through\<close>
  "py_iter v =
     (case v of
        PList xs \<Rightarrow> Inr xs
      | PDict d \<Rightarrow> Inr (map PStr (dict_keys d))
      | PStr s \<Rightarrow> Inr (map (\<lambda>c. PStr [c]) s)
      | _ \<Rightarrow> Inl TypeError)"

fun is_substring :: "string \<Rightarrow> string \<Rightarrow> bool" where
  "is_substring p [] = (p = [])"
| "is_substring p (c # cs) = (prefix p (c # cs) \<or> is_substring p cs)"

definition py_contains :: "string \<Rightarrow> pyval \<Rightarrow> pyerr + bool" where
  \<comment> \<open>\<^verbatim>\<open>k in v\<close> for a string \<open>k\<close>\<close>
  "py_contains k v =
     (case v of
        PList xs \<Rightarrow> Inr (PStr k \<in> set xs)
      | PDict d \<Rightarrow> Inr (k \<in> set (dict_keys d))
      | PStr s \<Rightarrow> Inr (is_substring k s)
      | _ \<Rightarrow> Inl TypeError)"

definition py_append :: "pyval \<Rightarrow> pyval \<Rightarrow> pyerr + pyval" where
  \<comment> \<open>\<^verbatim>\<open>v.append(x)\<close>, returning the updated list\<close>
  "py_append v x = (case v of PList xs \<Rightarrow> Inr (PList (xs @ [x])) | _ \<Rightarrow> Inl AttributeError)"

subsection \<open>Strings\<close>

text \<open>\<^verbatim>\<open>s.replace(old, "", 1)\<close> and \<^verbatim>\<open>s.replace(old, "")\<close> for a non-empty \<open>old\<close>.\<close>

fun remove_first :: "string \<Rightarrow> string \<Rightarrow> string" where
  "remove_first old [] = []"
| "remove_first old (c # cs) =
     (if prefix old (c # cs) then drop (length old) (c # cs) else c # remove_first old cs)"

function remove_all :: "string \<Rightarrow> string \<Rightarrow> string" where
  "remove_all old [] = []"
| "remove_all old (c # cs) =
     (if old \<noteq> [] \<and> prefix old (c # cs) then remove_all old (drop (length old) (c # cs))
      else c # remove_all old cs)"
  by pat_completeness auto
termination
  by (relation "measure (\<lambda>(old, s). length s)") auto

definition lower_char :: "char \<Rightarrow> char" where
  "lower_char c =
     (if c \<in> set ''ABCDEFGHIJKLMNOPQRSTUVWXYZ'' then char_of (of_char c + (32::nat)) else c)"

definition py_lower :: "string \<Rightarrow> string" where
  "py_lower s = map lower_char s"

section \<open>Versions\<close>

text \<open>
  \<^verbatim>\<open>packaging.version.Version\<close> of a final release is its release tuple; the comparison key
  drops trailing zeros of the tuple and compares lexicographically, as Python tuples do.
\<close>

type_synonym version = "nat list"

definition strip_zeros :: "nat list \<Rightarrow> nat list" where
  "strip_zeros r = rev (dropWhile (\<lambda>x. x = 0) (rev r))"

fun tuple_less :: "nat list \<Rightarrow> nat list \<Rightarrow> bool" where
  "tuple_less [] [] = False"
| "tuple_less [] (y # ys) = True"
| "tuple_less (x # xs) [] = False"
| "tuple_less (x # xs) (y # ys) = (x < y \<or> (x = y \<and> tuple_less xs ys))"

definition version_ge :: "version \<Rightarrow> version \<Rightarrow> bool" where
  "version_ge a b = (\<not> tuple_less (strip_zeros a) (strip_zeros b))"

section \<open>The logger object and the module state\<close>

text \<open>
  A call to the Langfuse client: \<open>Langfuse.trace(**params)\<close>, \<open>trace.span(**params)\<close>,
  \<open>span.end()\<close>, \<open>trace.generation(**params)\<close>, \<open>Langfuse.get_prompt(id)\<close>, and the two
  calls of the legacy protocol. The client is external: it is a function from the calls
  made so far (with their outcomes) and the present call to an exception or a returned
  object.
\<close>

datatype lf_call =
    Trace pdict
  | Span pdict
  | SpanEnd
  | Generation pdict
  | GetPrompt pyval
  | TraceV1 pdict
  | GenerationV1 pdict

type_synonym lf_log = "(lf_call \<times> bool) list"

type_synonym lf_client = "lf_log \<Rightarrow> lf_call \<Rightarrow> pyerr + pyval"

text \<open>\<open>self\<close>: the version string read at construction, and the client.\<close>

record lf_logger =
  langfuse_sdk_version :: version
  Langfuse :: lf_client

subsection \<open>Capability checks\<close>

definition is_langfuse_v2 :: "version \<Rightarrow> bool" where
  \<comment> \<open>the argument is \<^verbatim>\<open>langfuse.version.__version__\<close>, read from the module at each call\<close>
  "is_langfuse_v2 langfuse_version = version_ge langfuse_version [2, 0, 0]"

definition supports_tags :: "'a lf_logger_scheme \<Rightarrow> bool" where
  "supports_tags self = version_ge (langfuse_sdk_version self) [2, 6, 3]"

definition supports_prompt :: "'a lf_logger_scheme \<Rightarrow> bool" where
  "supports_prompt self = version_ge (langfuse_sdk_version self) [2, 7, 3]"

definition supports_costs :: "'a lf_logger_scheme \<Rightarrow> bool" where
  "supports_costs self = version_ge (langfuse_sdk_version self) [2, 7, 3]"

definition supports_completion_start_time :: "'a lf_logger_scheme \<Rightarrow> bool" where
  "supports_completion_start_time self = version_ge (langfuse_sdk_version self) [2, 7, 3]"

subsection \<open>Client creation\<close>

text \<open>
  \<open>safe_init_langfuse_client\<close>. The state is the module counter
  \<^verbatim>\<open>litellm.initialized_langfuse_clients\<close>; \<open>max_clients\<close> is \<^verbatim>\<open>MAX_LANGFUSE_INITIALIZED_CLIENTS\<close> of
  \<^verbatim>\<open>litellm.constants\<close> and \<open>ctor\<close> the constructor \<^verbatim>\<open>Langfuse(**parameters)\<close>, both defined
  outside this file. The result is the exception or the client, and the new counter.
\<close>

definition safe_init_langfuse_client ::
  "int \<Rightarrow> (pdict \<Rightarrow> pyerr + 'c) \<Rightarrow> pdict \<Rightarrow> int \<Rightarrow> (pyerr + 'c) \<times> int" where
  "safe_init_langfuse_client max_clients ctor parameters initialized =
     (if initialized \<ge> max_clients
      then (Inl (MaxClientsReached initialized max_clients), initialized)
      else (case ctor parameters of
              Inl e \<Rightarrow> (Inl e, initialized)
            | Inr langfuse_client \<Rightarrow> (Inr langfuse_client, initialized + 1)))"

text \<open>A sequence of creation attempts, one per parameter dictionary, threading the counter.\<close>

fun init_clients ::
  "int \<Rightarrow> (pdict \<Rightarrow> pyerr + 'c) \<Rightarrow> pdict list \<Rightarrow> int \<Rightarrow> (pyerr + 'c) list \<times> int" where
  "init_clients max_clients ctor [] n = ([], n)"
| "init_clients max_clients ctor (p # ps) n =
     (case safe_init_langfuse_client max_clients ctor p n of
        (r, n') \<Rightarrow>
          (case init_clients max_clients ctor ps n' of (rs, n'') \<Rightarrow> (r # rs, n'')))"

definition is_ok :: "pyerr + 'a \<Rightarrow> bool" where
  "is_ok r = (case r of Inl _ \<Rightarrow> False | Inr _ \<Rightarrow> True)"

section \<open>What the module takes from outside\<close>

text \<open>
  Module state and functions of other modules that the logger reads. None of them is
  defined in the file under verification, so each is a parameter.
\<close>

record lf_env =
  langfuse_version :: version
    \<comment> \<open>\<^verbatim>\<open>langfuse.version.__version__\<close>\<close>
  langfuse_default_tags :: pyval
    \<comment> \<open>\<^verbatim>\<open>litellm.langfuse_default_tags\<close>\<close>
  litellm_cache :: "(pdict \<Rightarrow> pyerr + pyval) option"
    \<comment> \<open>\<^verbatim>\<open>litellm.cache\<close>; when set, its \<^verbatim>\<open>_get_preset_cache_key_from_kwargs\<close>\<close>
  PROXY_BASE_URL :: "string option"
    \<comment> \<open>\<^verbatim>\<open>os.environ.get("PROXY_BASE_URL", None)\<close>\<close>
  redact_user_api_key_info :: "pdict \<Rightarrow> pdict"
  get_logging_id :: "pyval \<Rightarrow> pyval \<Rightarrow> pyerr + pyval"
    \<comment> \<open>\<^verbatim>\<open>litellm.utils.get_logging_id(start_time, response_obj)\<close>\<close>
  str_other :: "pyval \<Rightarrow> pyerr + string"
    \<comment> \<open>\<^verbatim>\<open>str(v)\<close> for a \<open>v\<close> that is not a string, \<open>None\<close> or a boolean\<close>
  message_json :: "pyval \<Rightarrow> pyerr + pyval"
    \<comment> \<open>\<^verbatim>\<open>message.json()\<close> of a choice's message\<close>
  Prompt_Chat :: "pdict \<Rightarrow> pyerr + pyval"
  Prompt_Text :: "pdict \<Rightarrow> pyerr + pyval"
  ChatPromptClient :: "pyval \<Rightarrow> pyerr + pyval"
  TextPromptClient :: "pyval \<Rightarrow> pyerr + pyval"
  prompt_text_fields :: "string list"
    \<comment> \<open>the field names of \<^verbatim>\<open>Prompt_Text\<close>\<close>
  prompt_chat_fields :: "string list"

definition py_str :: "'a lf_env_scheme \<Rightarrow> pyval \<Rightarrow> pyerr + string" where
  \<comment> \<open>\<^verbatim>\<open>str(v)\<close>, also what an f-string puts for \<^verbatim>\<open>{v}\<close>\<close>
  "py_str E v =
     (case v of
        PStr s \<Rightarrow> Inr s
      | PNone \<Rightarrow> Inr ''None''
      | PBool b \<Rightarrow> Inr (if b then ''True'' else ''False'')
      | _ \<Rightarrow> str_other E v)"

section \<open>Header merge\<close>

text \<open>
  \<open>add_metadata_from_header\<close>. The loop runs over the keys of the request headers; the
  membership test \<^verbatim>\<open>trace_param_key in metadata\<close> only chooses the log message, but it is
  evaluated and can raise.
\<close>

fun header_loop :: "pyval \<Rightarrow> pyval list \<Rightarrow> pyval \<Rightarrow> pyerr + pyval" where
  "header_loop proxy_headers [] metadata = Inr metadata"
| "header_loop proxy_headers (key # keys) metadata =
     (case key of
        PStr metadata_param_key \<Rightarrow>
          (if prefix ''langfuse_'' metadata_param_key then
             (let trace_param_key = remove_first ''langfuse_'' metadata_param_key in
              bindE (py_contains trace_param_key metadata) (\<lambda>_.
              bindE (py_get proxy_headers metadata_param_key PNone) (\<lambda>v.
              bindE (py_setitem metadata trace_param_key v) (\<lambda>metadata'.
              header_loop proxy_headers keys metadata'))))
           else header_loop proxy_headers keys metadata)
      | _ \<Rightarrow> Inl AttributeError)"

definition add_metadata_from_header :: "pyval \<Rightarrow> pyval \<Rightarrow> pyerr + pyval" where
  "add_metadata_from_header litellm_params metadata =
     (if litellm_params = PNone then Inr metadata
      else
        bindE (py_get litellm_params ''proxy_server_request'' PNone) (\<lambda>psr.
        if psr = PNone then Inr metadata
        else
          (let metadata = (if metadata = PNone then PDict [] else metadata) in
           bindE (py_get psr ''headers'' (PDict [])) (\<lambda>h.
           (let proxy_headers = py_or h (PDict []) in
            bindE (py_iter proxy_headers) (\<lambda>keys.
            header_loop proxy_headers keys metadata))))))"

section \<open>Input and output of the logged event\<close>

definition get_chat_content_for_langfuse :: "'a lf_env_scheme \<Rightarrow> pyval \<Rightarrow> pyerr + pyval" where
  "get_chat_content_for_langfuse E response_obj =
     bindE (py_attr response_obj ''choices'') (\<lambda>choices.
     if \<not> py_truthy choices then Inr PNone
     else
       bindE (py_len choices) (\<lambda>n.
       if n > 0 then
         bindE (py_getitem response_obj ''choices'') (\<lambda>cs.
         bindE (py_first cs) (\<lambda>choice.
         bindE (py_getitem choice ''message'') (\<lambda>message.
         message_json E message)))
       else Inr PNone))"

definition get_text_completion_content_for_langfuse :: "pyval \<Rightarrow> pyerr + pyval" where
  "get_text_completion_content_for_langfuse response_obj =
     bindE (py_attr response_obj ''choices'') (\<lambda>choices.
     if \<not> py_truthy choices then Inr PNone
     else
       bindE (py_len choices) (\<lambda>n.
       if n > 0 then
         bindE (py_first choices) (\<lambda>choice. py_attr choice ''text'')
       else Inr PNone))"

text \<open>
  \<open>_get_langfuse_input_output_content\<close>: the branches in the order of the source.
  \<open>kwargs\<close> is a dictionary; \<open>level\<close> is a string.
\<close>

definition get_langfuse_input_output_content ::
  "'a lf_env_scheme \<Rightarrow> pdict \<Rightarrow> pyval \<Rightarrow> pyval \<Rightarrow> string \<Rightarrow> pyval \<Rightarrow> pyerr + (pyval \<times> pyval)" where
  "get_langfuse_input_output_content E kwargs response_obj prompt level status_message =
     (if level = ''ERROR'' \<and> status_message \<noteq> PNone \<and> is_str status_message
        then Inr (prompt, status_message)
      else if response_obj \<noteq> PNone \<and>
              (dict_get kwargs ''call_type'' PNone = PStr ''embedding'' \<or>
               isinstance response_obj ''EmbeddingResponse'')
        then Inr (prompt, PNone)
      else if response_obj \<noteq> PNone \<and> isinstance response_obj ''ModelResponse''
        then bindE (get_chat_content_for_langfuse E response_obj) (\<lambda>output.
             Inr (prompt, output))
      else if response_obj \<noteq> PNone \<and> isinstance response_obj ''HttpxBinaryResponseContent''
        then Inr (prompt, PStr ''speech-output'')
      else if response_obj \<noteq> PNone \<and> isinstance response_obj ''TextCompletionResponse''
        then bindE (get_text_completion_content_for_langfuse response_obj) (\<lambda>output.
             Inr (prompt, output))
      else if response_obj \<noteq> PNone \<and> isinstance response_obj ''ImageResponse''
        then bindE (py_get response_obj ''data'' PNone) (\<lambda>output. Inr (prompt, output))
      else if response_obj \<noteq> PNone \<and> isinstance response_obj ''TranscriptionResponse''
        then bindE (py_get response_obj ''text'' PNone) (\<lambda>output. Inr (prompt, output))
      else if response_obj \<noteq> PNone \<and> isinstance response_obj ''RerankResponse''
        then bindE (py_attr response_obj ''results'') (\<lambda>output. Inr (prompt, output))
      else if dict_get kwargs ''call_type'' PNone \<noteq> PNone \<and>
              dict_get kwargs ''call_type'' PNone = PStr ''_arealtime'' \<and>
              response_obj \<noteq> PNone \<and> is_list response_obj
        then Inr (dict_get kwargs ''input'' PNone, response_obj)
      else if dict_get kwargs ''call_type'' PNone \<noteq> PNone \<and>
              dict_get kwargs ''call_type'' PNone = PStr ''pass_through_endpoint'' \<and>
              response_obj \<noteq> PNone \<and> is_dict response_obj
        then bindE (py_get response_obj ''response'' (PStr [])) (\<lambda>output.
             Inr (prompt, output))
      else Inr (PNone, PNone))"

section \<open>The v2 protocol: from the call to the trace parameters\<close>

text \<open>The arguments of \<open>_log_langfuse_v2\<close>.\<close>

record v2_args =
  arg_user_id :: pyval
  arg_metadata :: pyval
  arg_litellm_params :: pyval
  arg_output :: pyval
  arg_start_time :: pyval
  arg_end_time :: pyval
  arg_kwargs :: pdict
  arg_optional_params :: pyval
  arg_input :: pyval
  arg_response_obj :: pyval
  arg_level :: string
  arg_litellm_call_id :: pyval

definition REDACTED :: pyval where
  "REDACTED = PStr ''redacted-by-litellm''"

definition get_langfuse_tags :: "pyval \<Rightarrow> pyerr + pyval" where
  "get_langfuse_tags standard_logging_object =
     (if standard_logging_object = PNone then Inr (PList [])
      else bindE (py_get standard_logging_object ''request_tags'' (PList [])) (\<lambda>t.
           Inr (py_or t (PList []))))"

definition append_tag :: "'a lf_env_scheme \<Rightarrow> pyval \<Rightarrow> string \<Rightarrow> pyval \<Rightarrow> pyerr + pyval" where
  \<comment> \<open>\<^verbatim>\<open>tags.append(f"<pre>{value}")\<close>: the method is looked up before the string is built\<close>
  "append_tag E tags pre v =
     (if is_list tags then bindE (py_str E v) (\<lambda>s. py_append tags (PStr (pre @ s)))
      else Inl AttributeError)"

definition in_default_tags :: "'a lf_env_scheme \<Rightarrow> string \<Rightarrow> bool" where
  \<comment> \<open>\<^verbatim>\<open>langfuse_default_tags is not None and isinstance(..., list) and key in ...\<close>\<close>
  "in_default_tags E k =
     (case langfuse_default_tags E of PList dts \<Rightarrow> PStr k \<in> set dts | _ \<Rightarrow> False)"

text \<open>The loop over \<^verbatim>\<open>metadata.items()\<close> that derives tags and copies the metadata.\<close>

fun clean_metadata_loop ::
  "'a lf_env_scheme \<Rightarrow> pdict \<Rightarrow> pyval \<times> pdict \<Rightarrow> pyerr + (pyval \<times> pdict)" where
  "clean_metadata_loop E [] (tags, clean_metadata) = Inr (tags, clean_metadata)"
| "clean_metadata_loop E ((key, v) # items) (tags, clean_metadata) =
     bindE (if in_default_tags E key then append_tag E tags (key @ '':'') v else Inr tags)
       (\<lambda>tags'.
          if key \<in> set [''headers'', ''endpoint'', ''caching_groups'', ''previous_models'']
          then clean_metadata_loop E items (tags', clean_metadata)
          else clean_metadata_loop E items (tags', dict_set clean_metadata key v))"

definition add_default_langfuse_tags ::
  "'a lf_env_scheme \<Rightarrow> pyval \<Rightarrow> pdict \<Rightarrow> pyval \<Rightarrow> pyerr + pyval" where
  "add_default_langfuse_tags E tags kwargs metadata =
     (case langfuse_default_tags E of
        PList dts \<Rightarrow>
          bindE (if PStr ''cache_hit'' \<in> set dts
                 then append_tag E tags ''cache_hit:'' (dict_get kwargs ''cache_hit'' (PBool False))
                 else Inr tags) (\<lambda>tags.
          if PStr ''cache_key'' \<in> set dts then
            bindE (py_get metadata ''hidden_params'' (PDict [])) (\<lambda>hp.
            bindE (py_get (py_or hp (PDict [])) ''cache_key'' PNone) (\<lambda>cache_key.
            bindE (if cache_key = PNone
                   then (case litellm_cache E of
                           Some preset_cache_key \<Rightarrow> preset_cache_key kwargs
                         | None \<Rightarrow> Inr cache_key)
                   else Inr cache_key) (\<lambda>cache_key.
            append_tag E tags ''cache_key:'' cache_key)))
          else Inr tags)
      | _ \<Rightarrow> Inr tags)"

subsection \<open>The trace parameters\<close>

text \<open>
  Patch of an existing trace: the loop over \<open>update_trace_keys\<close>. The state is the pair
  of \<open>trace_params\<close> and \<open>clean_metadata\<close>.
\<close>

fun patch_loop :: "pyval list \<Rightarrow> pdict \<times> pdict \<Rightarrow> pyerr + (pdict \<times> pdict)" where
  "patch_loop [] (trace_params, clean_metadata) = Inr (trace_params, clean_metadata)"
| "patch_loop (key # keys) (trace_params, clean_metadata) =
     (case key of
        PStr metadata_param_key \<Rightarrow>
          (let trace_param_key = remove_all ''trace_'' metadata_param_key in
           if trace_param_key \<notin> set (dict_keys trace_params) then
             (case dict_pop clean_metadata metadata_param_key PNone of
                (updated_trace_value, clean_metadata') \<Rightarrow>
                  if updated_trace_value \<noteq> PNone
                  then patch_loop keys
                         (dict_set trace_params trace_param_key updated_trace_value,
                          clean_metadata')
                  else patch_loop keys (trace_params, clean_metadata'))
           else patch_loop keys (trace_params, clean_metadata))
      | _ \<Rightarrow> Inl AttributeError)"

definition drop_trace_keys :: "pdict \<Rightarrow> pdict" where
  \<comment> \<open>pop every key that starts with \<^verbatim>\<open>trace_\<close>\<close>
  "drop_trace_keys clean_metadata = filter (\<lambda>(k, v). \<not> prefix ''trace_'' k) clean_metadata"

definition masked :: "pyval \<Rightarrow> pyval \<Rightarrow> pyval" where
  \<comment> \<open>\<^verbatim>\<open>x if not mask_x else "redacted-by-litellm"\<close>\<close>
  "masked mask_flag x = (if \<not> py_truthy mask_flag then x else REDACTED)"

definition patch_trace_params ::
  "pyval \<Rightarrow> pyval \<Rightarrow> pdict \<Rightarrow> pyval \<Rightarrow> pyval \<Rightarrow> pyval \<Rightarrow> pyval \<Rightarrow> pyerr + (pdict \<times> pdict)" where
  "patch_trace_params existing_trace_id update_trace_keys clean_metadata
       inp outp mask_input mask_output =
     bindE (py_iter update_trace_keys) (\<lambda>keys.
     bindE (patch_loop keys ([(''id'', existing_trace_id)], clean_metadata))
       (\<lambda>(trace_params, clean_metadata).
     (let clean_metadata = drop_trace_keys clean_metadata in
      bindE (py_contains ''input'' update_trace_keys) (\<lambda>has_input.
      (let trace_params =
             (if has_input then dict_set trace_params ''input'' (masked mask_input inp)
              else trace_params) in
       bindE (py_contains ''output'' update_trace_keys) (\<lambda>has_output.
       (let trace_params =
              (if has_output then dict_set trace_params ''output'' (masked mask_output outp)
               else trace_params) in
        Inr (trace_params, clean_metadata))))))))"

text \<open>New trace: every remaining \<^verbatim>\<open>trace_\<close> key is moved onto the trace.\<close>

fun lift_trace_keys :: "string list \<Rightarrow> pdict \<times> pdict \<Rightarrow> pdict \<times> pdict" where
  "lift_trace_keys [] (trace_params, clean_metadata) = (trace_params, clean_metadata)"
| "lift_trace_keys (key # keys) (trace_params, clean_metadata) =
     (case dict_pop clean_metadata key PNone of
        (v, clean_metadata') \<Rightarrow>
          lift_trace_keys keys
            (dict_set trace_params (remove_all ''trace_'' key) v, clean_metadata'))"

definition new_trace_params ::
  "pyval \<Rightarrow> pyval \<Rightarrow> pyval \<Rightarrow> pyval \<Rightarrow> pdict \<Rightarrow> pyval \<Rightarrow> pyval \<Rightarrow> pyval \<Rightarrow> pyval \<Rightarrow> string
     \<Rightarrow> pdict \<times> pdict" where
  "new_trace_params trace_id trace_name session_id end_user_id clean_metadata
       inp outp mask_input mask_output level =
     (case dict_pop clean_metadata ''trace_version'' (dict_get clean_metadata ''version'' PNone) of
        (version, clean_metadata) \<Rightarrow>
     (case lift_trace_keys (filter (prefix ''trace_'') (dict_keys clean_metadata))
             ([(''id'', trace_id), (''name'', trace_name), (''session_id'', session_id),
               (''input'', masked mask_input inp), (''version'', version),
               (''user_id'', end_user_id)], clean_metadata) of
        (trace_params, clean_metadata) \<Rightarrow>
          (if level = ''ERROR'' then dict_set trace_params ''status_message'' outp
           else dict_set trace_params ''output'' (masked mask_output outp),
           clean_metadata)))"

subsection \<open>Collecting tags and cleaning the metadata\<close>

definition v2_collect ::
  "'a lf_env_scheme \<Rightarrow> 'b lf_logger_scheme \<Rightarrow> pdict \<Rightarrow> pyval \<Rightarrow>
     pyerr + (pyval \<times> pyval \<times> pyval \<times> pdict)" where
  \<comment> \<open>the result is \<open>(tags, end_user_id, prompt_management_metadata, clean_metadata)\<close>\<close>
  "v2_collect E self kwargs metadata =
     (let standard_logging_object = dict_get kwargs ''standard_logging_object'' PNone in
      bindE (if supports_tags self then get_langfuse_tags standard_logging_object
             else Inr (PList [])) (\<lambda>tags.
      bindE (if standard_logging_object = PNone then Inr (PNone, PNone)
             else
               bindE (py_getitem standard_logging_object ''metadata'') (\<lambda>m.
               bindE (py_get m ''user_api_key_end_user_id'' PNone) (\<lambda>end_user_id.
               bindE (py_getitem standard_logging_object ''metadata'') (\<lambda>m.
               bindE (py_get m ''prompt_management_metadata'' PNone) (\<lambda>pmm.
               Inr (end_user_id, pmm))))))
        (\<lambda>(end_user_id, prompt_management_metadata).
      (let clean_metadata =
             (if prompt_management_metadata \<noteq> PNone
              then [(''prompt_management_metadata'', prompt_management_metadata)] else []) in
       bindE (case metadata of
                PDict items \<Rightarrow> clean_metadata_loop E items (tags, clean_metadata)
              | _ \<Rightarrow> Inr (tags, clean_metadata))
         (\<lambda>(tags, clean_metadata).
       bindE (add_default_langfuse_tags E tags kwargs metadata) (\<lambda>tags.
       Inr (tags, end_user_id, prompt_management_metadata, clean_metadata)))))))"

text \<open>The control fields popped from \<open>clean_metadata\<close>, in the order of the source.\<close>

record control =
  session_id :: pyval
  trace_name :: pyval
  trace_id :: pyval
  existing_trace_id :: pyval
  update_trace_keys :: pyval
  debug :: pyval
  mask_input :: pyval
  mask_output :: pyval

definition pop_control_fields :: "pyval \<Rightarrow> pdict \<Rightarrow> control \<times> pdict" where
  "pop_control_fields litellm_call_id clean_metadata =
     (case dict_pop clean_metadata ''session_id'' PNone of (v1, cm1) \<Rightarrow>
      case dict_pop cm1 ''trace_name'' PNone of (v2, cm2) \<Rightarrow>
      case dict_pop cm2 ''trace_id'' litellm_call_id of (v3, cm3) \<Rightarrow>
      case dict_pop cm3 ''existing_trace_id'' PNone of (v4, cm4) \<Rightarrow>
      case dict_pop cm4 ''update_trace_keys'' (PList []) of (v5, cm5) \<Rightarrow>
      case dict_pop cm5 ''debug_langfuse'' PNone of (v6, cm6) \<Rightarrow>
      case dict_pop cm6 ''mask_input'' (PBool False) of (v7, cm7) \<Rightarrow>
      case dict_pop cm7 ''mask_output'' (PBool False) of (v8, cm8) \<Rightarrow>
        (\<lparr>session_id = v1, trace_name = v2, trace_id = v3, existing_trace_id = v4,
          update_trace_keys = v5, debug = v6, mask_input = v7, mask_output = v8\<rparr>, cm8))"

definition build_trace_params ::
  "'a lf_env_scheme \<Rightarrow> v2_args \<Rightarrow> control \<Rightarrow> pyval \<Rightarrow> pdict \<Rightarrow> pyerr + (pdict \<times> pdict)" where
  \<comment> \<open>from the redaction to the end of the \<^verbatim>\<open>if existing_trace_id is not None\<close> statement;
      the result is \<open>(trace_params, clean_metadata)\<close>\<close>
  "build_trace_params E a c end_user_id clean_metadata =
     (let clean_metadata = redact_user_api_key_info E clean_metadata in
      bindE (if trace_name c = PNone \<and> existing_trace_id c = PNone
             then bindE (py_str E (dict_get (arg_kwargs a) ''call_type'' (PStr ''completion'')))
                    (\<lambda>s. Inr (PStr (''litellm-'' @ s)))
             else Inr (trace_name c)) (\<lambda>trace_name.
      if existing_trace_id c \<noteq> PNone
      then patch_trace_params (existing_trace_id c) (update_trace_keys c) clean_metadata
             (arg_input a) (arg_output a) (mask_input c) (mask_output c)
      else Inr (new_trace_params (trace_id c) trace_name (session_id c) end_user_id
                  clean_metadata (arg_input a) (arg_output a) (mask_input c) (mask_output c)
                  (arg_level a))))"

definition debug_enabled :: "pyval \<Rightarrow> bool" where
  \<comment> \<open>\<^verbatim>\<open>debug is True or (isinstance(debug, str) and debug.lower() == "true")\<close>\<close>
  "debug_enabled d = (case d of PBool b \<Rightarrow> b | PStr s \<Rightarrow> py_lower s = ''true'' | _ \<Rightarrow> False)"

definition add_debug_metadata :: "pyval \<Rightarrow> pyval \<Rightarrow> pdict \<Rightarrow> pyerr + pdict" where
  \<comment> \<open>the raw metadata goes under \<^verbatim>\<open>metadata_passed_to_litellm\<close>; when the trace metadata came
      from the raw metadata itself, Python builds a cyclic value, which is cut here at the
      raw metadata as it was passed\<close>
  "add_debug_metadata d metadata trace_params =
     (if debug_enabled d then
        (case map_of trace_params ''metadata'' of
           Some m \<Rightarrow>
             bindE (py_setitem m ''metadata_passed_to_litellm'' metadata) (\<lambda>m'.
             Inr (dict_set trace_params ''metadata'' m'))
         | None \<Rightarrow>
             Inr (dict_set trace_params ''metadata''
                    (PDict [(''metadata_passed_to_litellm'', metadata)])))
      else Inr trace_params)"

text \<open>
  The state at the call of \<^verbatim>\<open>self.Langfuse.trace(**trace_params)\<close>. \<open>kwargs\<close> is part of it:
  the source writes \<^verbatim>\<open>kwargs["cache_hit"] = False\<close> into the caller's dictionary.
\<close>

record v2_state =
  st_trace_params :: pdict
  st_clean_metadata :: pdict
  st_kwargs :: pdict
  st_metadata :: pyval
  st_standard_logging_object :: pyval
  st_prompt_management_metadata :: pyval
  st_mask_input :: pyval
  st_mask_output :: pyval
  st_cost :: pyval

definition check_proxy_headers :: "pyval \<Rightarrow> pyerr + unit" where
  \<comment> \<open>the block that builds \<^verbatim>\<open>clean_headers\<close>; its result is not used, its exceptions are\<close>
  "check_proxy_headers litellm_params =
     bindE (py_get litellm_params ''proxy_server_request'' PNone) (\<lambda>psr.
     if py_truthy psr then
       bindE (py_get psr ''method'' PNone) (\<lambda>_.
       bindE (py_get psr ''url'' PNone) (\<lambda>_.
       bindE (py_get psr ''headers'' PNone) (\<lambda>headers.
       if py_truthy headers then (if is_dict headers then Inr () else Inl AttributeError)
       else Inr ())))
     else Inr ())"

definition set_if_truthy :: "pdict \<Rightarrow> string \<Rightarrow> pyval \<Rightarrow> pdict" where
  \<comment> \<open>\<^verbatim>\<open>if v: d[k] = v\<close>\<close>
  "set_if_truthy d k v = (if py_truthy v then dict_set d k v else d)"

definition record_cache_hit :: "'b lf_logger_scheme \<Rightarrow> pdict \<Rightarrow> pdict \<Rightarrow> pdict \<times> pdict" where
  \<comment> \<open>with tag support, a \<open>cache_hit\<close> of \<open>None\<close> becomes \<open>False\<close> in \<open>kwargs\<close> and the value is
      copied into \<open>clean_metadata\<close>; the result is \<open>(kwargs, clean_metadata)\<close>\<close>
  "record_cache_hit self kwargs clean_metadata =
     (if supports_tags self \<and> ''cache_hit'' \<in> set (dict_keys kwargs) then
        (let kwargs = (if map_of kwargs ''cache_hit'' = Some PNone
                       then dict_set kwargs ''cache_hit'' (PBool False) else kwargs) in
         (kwargs, dict_set clean_metadata ''cache_hit'' (dict_get kwargs ''cache_hit'' PNone)))
      else (kwargs, clean_metadata))"

definition v2_extend_metadata ::
  "'a lf_env_scheme \<Rightarrow> 'b lf_logger_scheme \<Rightarrow> v2_args \<Rightarrow> pyval \<Rightarrow> pdict \<Rightarrow>
     pyerr + (pyval \<times> pdict \<times> pdict)" where
  \<comment> \<open>from the response cost to the cache hit; the result is
      \<open>(tags, clean_metadata, kwargs)\<close>\<close>
  "v2_extend_metadata E self a tags clean_metadata =
     (let kwargs = arg_kwargs a;
          standard_logging_object = dict_get kwargs ''standard_logging_object'' PNone;
          cost = dict_get kwargs ''response_cost'' PNone;
          clean_metadata = dict_set clean_metadata ''litellm_response_cost'' cost in
      bindE (if standard_logging_object \<noteq> PNone
             then bindE (py_getitem standard_logging_object ''hidden_params'') (\<lambda>hp.
                  Inr (dict_set clean_metadata ''hidden_params'' hp))
             else Inr clean_metadata) (\<lambda>clean_metadata.
      bindE (if in_default_tags E ''proxy_base_url''
             then (case PROXY_BASE_URL E of
                     Some proxy_base_url \<Rightarrow>
                       append_tag E tags ''proxy_base_url:'' (PStr proxy_base_url)
                   | None \<Rightarrow> Inr tags)
             else Inr tags) (\<lambda>tags.
      bindE (py_get (arg_litellm_params a) ''api_base'' PNone) (\<lambda>api_base.
      (let clean_metadata = set_if_truthy clean_metadata ''api_base'' api_base;
           clean_metadata = set_if_truthy clean_metadata ''vertex_location''
                              (dict_get kwargs ''vertex_location'' PNone);
           clean_metadata = set_if_truthy clean_metadata ''aws_region_name''
                              (dict_get kwargs ''aws_region_name'' PNone) in
       (case record_cache_hit self kwargs clean_metadata of
          (kwargs, clean_metadata) \<Rightarrow> Inr (tags, clean_metadata, kwargs)))))))"

definition v2_trace_stage ::
  "'a lf_env_scheme \<Rightarrow> 'b lf_logger_scheme \<Rightarrow> v2_args \<Rightarrow> pyerr + v2_state" where
  "v2_trace_stage E self a =
     (let metadata = py_or (arg_metadata a) (PDict []);
          kwargs = arg_kwargs a in
      bindE (v2_collect E self kwargs metadata)
        (\<lambda>(tags, end_user_id, prompt_management_metadata, clean_metadata).
      (case pop_control_fields (arg_litellm_call_id a) clean_metadata of
         (c, clean_metadata) \<Rightarrow>
      bindE (build_trace_params E a c end_user_id clean_metadata)
        (\<lambda>(trace_params, clean_metadata).
      bindE (add_debug_metadata (debug c) metadata trace_params) (\<lambda>trace_params.
      bindE (v2_extend_metadata E self a tags clean_metadata)
        (\<lambda>(tags, clean_metadata, kwargs).
      (let trace_params =
             (if supports_tags self \<and> existing_trace_id c = PNone
              then dict_set trace_params ''tags'' tags else trace_params) in
      bindE (check_proxy_headers (arg_litellm_params a)) (\<lambda>_.
      Inr \<lparr>st_trace_params = trace_params, st_clean_metadata = clean_metadata,
           st_kwargs = kwargs, st_metadata = metadata,
           st_standard_logging_object =
             dict_get (arg_kwargs a) ''standard_logging_object'' PNone,
           st_prompt_management_metadata = prompt_management_metadata,
           st_mask_input = mask_input c, st_mask_output = mask_output c,
           st_cost = dict_get (arg_kwargs a) ''response_cost'' PNone\<rparr>))))))))"

section \<open>Calls to the client\<close>

text \<open>
  Code that calls the client runs in a monad of the call log and exceptions: a computation
  takes the log so far and returns an exception or a value, and the extended log. A call
  is logged with its outcome: \<open>True\<close> when it returned, \<open>False\<close> when it raised.
\<close>

type_synonym 'a lf_m = "lf_log \<Rightarrow> (pyerr + 'a) \<times> lf_log"

definition returnM :: "'a \<Rightarrow> 'a lf_m" where
  "returnM x = (\<lambda>log. (Inr x, log))"

definition liftM :: "pyerr + 'a \<Rightarrow> 'a lf_m" where
  "liftM r = (\<lambda>log. (r, log))"

definition bindM :: "'a lf_m \<Rightarrow> ('a \<Rightarrow> 'b lf_m) \<Rightarrow> 'b lf_m" where
  "bindM m f = (\<lambda>log. case m log of (Inl e, log') \<Rightarrow> (Inl e, log') | (Inr x, log') \<Rightarrow> f x log')"

definition callM :: "lf_client \<Rightarrow> lf_call \<Rightarrow> pyval lf_m" where
  "callM client c =
     (\<lambda>log. case client log c of
              Inl e \<Rightarrow> (Inl e, log @ [(c, False)])
            | Inr r \<Rightarrow> (Inr r, log @ [(c, True)]))"

definition try_except :: "'a lf_m \<Rightarrow> (pyerr \<Rightarrow> 'a lf_m) \<Rightarrow> 'a lf_m" where
  \<comment> \<open>\<^verbatim>\<open>try: m  except Exception as e: h(e)\<close>\<close>
  "try_except m h = (\<lambda>log. case m log of (Inl e, log') \<Rightarrow> h e log' | (Inr x, log') \<Rightarrow> (Inr x, log'))"

lemma bindM_cong [fundef_cong]:
  "m = m' \<Longrightarrow> (\<And>x. f x = f' x) \<Longrightarrow> bindM m f = bindM m' f'"
  by (auto simp: bindM_def fun_eq_iff split: prod.splits sum.splits)

subsection \<open>Spans\<close>

fun call_spans :: "lf_client \<Rightarrow> pdict list \<Rightarrow> unit lf_m" where
  "call_spans client [] = returnM ()"
| "call_spans client (p # ps) = bindM (callM client (Span p)) (\<lambda>_. call_spans client ps)"

definition grounding_spans :: "pyval \<Rightarrow> pdict list" where
  \<comment> \<open>the keyword arguments of the spans for a \<^verbatim>\<open>vertex_ai_grounding_metadata\<close> value\<close>
  "grounding_spans v =
     (case v of
        PList elems \<Rightarrow>
          concat (map (\<lambda>elem.
            (case elem of
               PDict items \<Rightarrow> map (\<lambda>(key, x). [(''name'', PStr key), (''input'', x)]) items
             | _ \<Rightarrow> [[(''name'', PStr ''vertex_ai_grounding_metadata''), (''input'', elem)]]))
            elems)
      | _ \<Rightarrow> [[(''name'', PStr ''vertex_ai_grounding_metadata''), (''input'', v)]])"

definition log_provider_specific_information_as_span :: "lf_client \<Rightarrow> pdict \<Rightarrow> unit lf_m" where
  "log_provider_specific_information_as_span client clean_metadata =
     (let hidden_params = dict_get clean_metadata ''hidden_params'' PNone in
      if hidden_params = PNone then returnM ()
      else
        bindM (liftM (py_get hidden_params ''vertex_ai_grounding_metadata'' PNone)) (\<lambda>v.
        if v \<noteq> PNone then call_spans client (grounding_spans v) else returnM ()))"

definition log_guardrail_information_as_span :: "lf_client \<Rightarrow> pyval \<Rightarrow> unit lf_m" where
  "log_guardrail_information_as_span client standard_logging_object =
     (if standard_logging_object = PNone then returnM ()
      else
        bindM (liftM (py_get standard_logging_object ''guardrail_information'' PNone)) (\<lambda>gi.
        if gi = PNone then returnM ()
        else
          bindM (liftM (py_get gi ''guardrail_request'' PNone)) (\<lambda>request.
          bindM (liftM (py_get gi ''guardrail_response'' PNone)) (\<lambda>response.
          bindM (liftM (py_get gi ''guardrail_name'' PNone)) (\<lambda>name.
          bindM (liftM (py_get gi ''guardrail_mode'' PNone)) (\<lambda>mode.
          bindM (liftM (py_get gi ''masked_entity_count'' PNone)) (\<lambda>masked_count.
          bindM (liftM (py_get gi ''start_time'' PNone)) (\<lambda>start_time.
          bindM (liftM (py_get gi ''end_time'' PNone)) (\<lambda>end_time.
          bindM (callM client (Span
                   [(''name'', PStr ''guardrail''), (''input'', request), (''output'', response),
                    (''metadata'', PDict [(''guardrail_name'', name), (''guardrail_mode'', mode),
                                          (''guardrail_masked_entity_count'', masked_count)]),
                    (''start_time'', start_time), (''end_time'', end_time)])) (\<lambda>span.
          bindM (callM client SpanEnd) (\<lambda>_. returnM ())))))))))))"

section \<open>The v2 protocol: the generation\<close>

definition usage_of :: "'b lf_logger_scheme \<Rightarrow> pyval \<Rightarrow> pyval \<Rightarrow> pyval" where
  "usage_of self response_obj cost =
     (if response_obj \<noteq> PNone then
        (let usage_obj = py_getattr response_obj ''usage'' PNone in
         if py_truthy usage_obj then
           PDict [(''prompt_tokens'',
                     py_getattr usage_obj ''prompt_tokens''
                       (py_getattr usage_obj ''input_tokens'' PNone)),
                  (''completion_tokens'',
                     py_getattr usage_obj ''completion_tokens''
                       (py_getattr usage_obj ''output_tokens'' PNone)),
                  (''total_cost'', if supports_costs self then cost else PNone)]
         else PNone)
      else PNone)"

fun requester_loop :: "pyval \<Rightarrow> pdict \<Rightarrow> pdict \<Rightarrow> pyerr + pdict" where
  "requester_loop requester_metadata [] returned_metadata = Inr returned_metadata"
| "requester_loop requester_metadata ((k, v) # items) returned_metadata =
     bindE (py_contains k requester_metadata) (\<lambda>b.
     requester_loop requester_metadata items
       (if \<not> b then dict_set returned_metadata k v else returned_metadata))"

definition log_requester_metadata :: "pdict \<Rightarrow> pyerr + pdict" where
  "log_requester_metadata clean_metadata =
     (let requester_metadata =
            py_or (dict_get clean_metadata ''requester_metadata'' PNone) (PDict []) in
      bindE (requester_loop requester_metadata clean_metadata []) (\<lambda>returned_metadata.
      Inr (dict_set returned_metadata ''requester_metadata'' requester_metadata)))"

definition build_generation_params ::
  "'a lf_env_scheme \<Rightarrow> 'b lf_logger_scheme \<Rightarrow> v2_args \<Rightarrow> v2_state \<Rightarrow>
     pyerr + (pdict \<times> pyval \<times> pdict)" where
  \<comment> \<open>up to the parent observation; the result is
      \<open>(generation_params, generation_id, clean_metadata)\<close>\<close>
  "build_generation_params E self a st =
     (let response_obj = arg_response_obj a;
          kwargs = st_kwargs st in
      bindE (if response_obj \<noteq> PNone \<and> py_hasattr response_obj ''id''
             then bindE (py_get response_obj ''id'' PNone) (\<lambda>i.
                  if i \<noteq> PNone then get_logging_id E (arg_start_time a) response_obj
                  else Inr PNone)
             else Inr PNone) (\<lambda>generation_id.
      (let usage = usage_of self response_obj (st_cost st) in
       (case dict_pop (st_clean_metadata st) ''generation_name'' PNone of
          (generation_name, clean_metadata) \<Rightarrow>
       bindE (if generation_name = PNone then
                bindE (py_str E (dict_get kwargs ''call_type'' (PStr ''completion''))) (\<lambda>s.
                (let alias = dict_get clean_metadata ''user_api_key_alias'' PNone in
                 if alias \<noteq> PNone
                 then bindE (py_str E alias) (\<lambda>t. Inr (PStr (''litellm:'' @ t)))
                 else Inr (PStr (''litellm-'' @ s))))
              else Inr generation_name) (\<lambda>generation_name.
       (let system_fingerprint =
              (if response_obj \<noteq> PNone then py_getattr response_obj ''system_fingerprint'' PNone
               else PNone) in
        bindE (if system_fingerprint \<noteq> PNone
               then py_setitem (arg_optional_params a) ''system_fingerprint'' system_fingerprint
               else Inr (arg_optional_params a)) (\<lambda>optional_params.
        (case dict_pop clean_metadata ''generation_id'' generation_id of
           (gen_id, clean_metadata) \<Rightarrow>
        bindE (case map_of kwargs ''model'' of Some m \<Rightarrow> Inr m | None \<Rightarrow> Inl KeyError)
          (\<lambda>model.
        bindE (log_requester_metadata clean_metadata) (\<lambda>md.
        (case dict_pop clean_metadata ''version'' PNone of
           (version, clean_metadata) \<Rightarrow>
        (let generation_params =
               [(''name'', generation_name), (''id'', gen_id),
                (''start_time'', arg_start_time a), (''end_time'', arg_end_time a),
                (''model'', model), (''model_parameters'', optional_params),
                (''input'', masked (st_mask_input st) (arg_input a)),
                (''output'', masked (st_mask_output st) (arg_output a)),
                (''usage'', usage), (''metadata'', PDict md),
                (''level'', PStr (arg_level a)), (''version'', version)] in
         bindE (py_get (st_metadata st) ''parent_observation_id'' PNone) (\<lambda>parent.
         Inr (if parent \<noteq> PNone
              then dict_set generation_params ''parent_observation_id'' parent
              else generation_params,
              generation_id, clean_metadata))))))))))))))"

definition prompt_data :: "string list \<Rightarrow> pdict \<Rightarrow> pyerr + pdict" where
  \<comment> \<open>the dictionary \<^verbatim>\<open>_data\<close> for a prompt given by \<^verbatim>\<open>version\<close> and \<^verbatim>\<open>prompt\<close>\<close>
  "prompt_data field_names user_prompt =
     bindE (py_getitem (PDict user_prompt) ''name'') (\<lambda>name.
     bindE (py_getitem (PDict user_prompt) ''prompt'') (\<lambda>prompt.
     bindE (py_getitem (PDict user_prompt) ''version'') (\<lambda>version.
     (let data = [(''name'', name), (''prompt'', prompt), (''version'', version),
                  (''config'', dict_get user_prompt ''config'' PNone)] in
      Inr (if ''labels'' \<in> set field_names \<and> ''tags'' \<in> set field_names
           then data @
                [(''labels'', py_or (dict_get user_prompt ''labels'' (PList [])) (PList [])),
                 (''tags'', py_or (dict_get user_prompt ''tags'' (PList [])) (PList []))]
           else data)))))"

definition add_prompt_to_generation_params ::
  "'a lf_env_scheme \<Rightarrow> lf_client \<Rightarrow> pdict \<Rightarrow> pdict \<Rightarrow> pyval \<Rightarrow> pdict lf_m" where
  "add_prompt_to_generation_params E client generation_params clean_metadata
       prompt_management_metadata =
     (let user_prompt = dict_get clean_metadata ''prompt'' PNone in
      if user_prompt = PNone \<and> prompt_management_metadata = PNone
      then returnM generation_params
      else
        (case user_prompt of
           PDict up \<Rightarrow>
             (if dict_get up ''type'' (PStr []) = PStr ''chat'' then
                liftM (bindE (Prompt_Chat E up) (\<lambda>p.
                       bindE (ChatPromptClient E p) (\<lambda>c.
                       Inr (dict_set generation_params ''prompt'' c))))
              else if dict_get up ''type'' (PStr []) = PStr ''text'' then
                liftM (bindE (Prompt_Text E up) (\<lambda>p.
                       bindE (TextPromptClient E p) (\<lambda>c.
                       Inr (dict_set generation_params ''prompt'' c))))
              else if ''version'' \<in> set (dict_keys up) \<and> ''prompt'' \<in> set (dict_keys up) then
                (case dict_get up ''prompt'' PNone of
                   PStr s \<Rightarrow>
                     liftM (bindE (prompt_data (prompt_text_fields E) up) (\<lambda>data.
                            bindE (Prompt_Text E data) (\<lambda>p.
                            bindE (TextPromptClient E p) (\<lambda>c.
                            Inr (dict_set generation_params ''prompt'' c)))))
                 | PList xs \<Rightarrow>
                     liftM (bindE (prompt_data (prompt_chat_fields E) up) (\<lambda>data.
                            bindE (Prompt_Chat E data) (\<lambda>p.
                            bindE (ChatPromptClient E p) (\<lambda>c.
                            Inr (dict_set generation_params ''prompt'' c)))))
                 | _ \<Rightarrow> returnM generation_params)
              else returnM generation_params)
         | _ \<Rightarrow>
             (if prompt_management_metadata \<noteq> PNone then
                bindM (liftM (py_getitem prompt_management_metadata ''prompt_integration''))
                  (\<lambda>integration.
                if integration = PStr ''langfuse'' then
                  try_except
                    (bindM (liftM (py_getitem prompt_management_metadata ''prompt_id''))
                       (\<lambda>prompt_id.
                     bindM (callM client (GetPrompt prompt_id)) (\<lambda>p.
                     returnM (dict_set generation_params ''prompt'' p))))
                    (\<lambda>e. returnM generation_params)
                else returnM (dict_set generation_params ''prompt'' user_prompt))
              else returnM (dict_set generation_params ''prompt'' user_prompt))))"

definition finish_generation_params ::
  "'b lf_logger_scheme \<Rightarrow> v2_args \<Rightarrow> v2_state \<Rightarrow> pdict \<Rightarrow> pdict" where
  \<comment> \<open>the status message and the completion start time\<close>
  "finish_generation_params self a st generation_params =
     (let generation_params =
            (if arg_output a \<noteq> PNone \<and> is_str (arg_output a) \<and> arg_level a = ''ERROR''
             then dict_set generation_params ''status_message'' (arg_output a)
             else generation_params) in
      if supports_completion_start_time self
      then dict_set generation_params ''completion_start_time''
             (dict_get (st_kwargs st) ''completion_start_time'' PNone)
      else generation_params)"

section \<open>The two protocols and the entry point\<close>

definition v2_body ::
  "'a lf_env_scheme \<Rightarrow> 'b lf_logger_scheme \<Rightarrow> v2_args \<Rightarrow> (pyval \<times> pyval) lf_m" where
  \<comment> \<open>the body of the \<^verbatim>\<open>try\<close> statement of \<open>_log_langfuse_v2\<close>\<close>
  "v2_body E self a =
     bindM (liftM (v2_trace_stage E self a)) (\<lambda>st.
     bindM (callM (Langfuse self) (Trace (st_trace_params st))) (\<lambda>trace.
     bindM (log_provider_specific_information_as_span (Langfuse self) (st_clean_metadata st))
       (\<lambda>_.
     bindM (log_guardrail_information_as_span (Langfuse self)
              (st_standard_logging_object st)) (\<lambda>_.
     bindM (liftM (build_generation_params E self a st))
       (\<lambda>(generation_params, generation_id, clean_metadata).
     bindM (if supports_prompt self
            then add_prompt_to_generation_params E (Langfuse self) generation_params
                   clean_metadata (st_prompt_management_metadata st)
            else returnM generation_params) (\<lambda>generation_params.
     bindM (callM (Langfuse self)
              (Generation (finish_generation_params self a st generation_params)))
       (\<lambda>generation_client.
     bindM (liftM (py_attr generation_client ''trace_id'')) (\<lambda>trace_id.
     returnM (trace_id, generation_id)))))))))"

definition log_langfuse_v2 ::
  "'a lf_env_scheme \<Rightarrow> 'b lf_logger_scheme \<Rightarrow> v2_args \<Rightarrow> (pyval \<times> pyval) lf_m" where
  "log_langfuse_v2 E self a = try_except (v2_body E self a) (\<lambda>e. returnM (PNone, PNone))"

definition log_langfuse_v1 ::
  "'b lf_logger_scheme \<Rightarrow> pyval \<Rightarrow> pyval \<Rightarrow> pyval \<Rightarrow> pyval \<Rightarrow> pyval \<Rightarrow> pdict \<Rightarrow> pyval \<Rightarrow>
     pyval \<Rightarrow> pyval \<Rightarrow> unit lf_m" where
  "log_langfuse_v1 self user_id metadata outp start_time end_time kwargs optional_params
       inp response_obj =
     bindM (liftM (py_get metadata ''generation_name'' (PStr ''litellm-completion'')))
       (\<lambda>name.
     bindM (callM (Langfuse self)
              (TraceV1 [(''name'', name), (''input'', inp), (''output'', outp),
                        (''userId'', user_id)])) (\<lambda>trace.
     bindM (liftM (py_get metadata ''generation_name'' (PStr ''litellm-completion'')))
       (\<lambda>name.
     bindM (liftM (case map_of kwargs ''model'' of Some m \<Rightarrow> Inr m | None \<Rightarrow> Inl KeyError))
       (\<lambda>model.
     bindM (liftM (bindE (py_attr response_obj ''usage'') (\<lambda>u. py_attr u ''prompt_tokens'')))
       (\<lambda>prompt_tokens.
     bindM (liftM (bindE (py_attr response_obj ''usage'') (\<lambda>u.
                   py_attr u ''completion_tokens''))) (\<lambda>completion_tokens.
     bindM (callM (Langfuse self)
              (GenerationV1
                 [(''name'', name), (''startTime'', start_time), (''endTime'', end_time),
                  (''model'', model), (''modelParameters'', optional_params),
                  (''prompt'', inp), (''completion'', outp),
                  (''usage'', PDict [(''prompt_tokens'', prompt_tokens),
                                     (''completion_tokens'', completion_tokens)]),
                  (''metadata'', metadata)])) (\<lambda>_.
     returnM ())))))))"

definition stringify_params :: "'a lf_env_scheme \<Rightarrow> pdict \<Rightarrow> pdict" where
  \<comment> \<open>a value that is no \<open>str\<close>, \<open>int\<close>, \<open>bool\<close> or \<open>float\<close> becomes \<open>str(value)\<close>; when \<open>str\<close>
      raises, the value stays\<close>
  "stringify_params E optional_params =
     map (\<lambda>(param, v).
            (param, if \<not> is_primitive v
                    then (case py_str E v of Inr s \<Rightarrow> PStr s | Inl e \<Rightarrow> v) else v))
       optional_params"

definition log_event_body ::
  "'a lf_env_scheme \<Rightarrow> 'b lf_logger_scheme \<Rightarrow> pdict \<Rightarrow> pyval \<Rightarrow> pyval \<Rightarrow> pyval \<Rightarrow> pyval \<Rightarrow>
     string \<Rightarrow> pyval \<Rightarrow> (pyval \<times> pyval) lf_m" where
  \<comment> \<open>the body of the \<^verbatim>\<open>try\<close> statement of \<open>log_event_on_langfuse\<close>\<close>
  "log_event_body E self kwargs response_obj start_time end_time user_id level status_message =
     (let litellm_params = dict_get kwargs ''litellm_params'' (PDict []);
          litellm_call_id = dict_get kwargs ''litellm_call_id'' PNone in
      bindM (liftM (py_get litellm_params ''metadata'' (PDict []))) (\<lambda>m.
      bindM (liftM (add_metadata_from_header litellm_params (py_or m (PDict []))))
        (\<lambda>metadata.
      bindM (liftM (case dict_get kwargs ''optional_params'' (PDict []) of
                      PDict d \<Rightarrow> Inr d | _ \<Rightarrow> Inl AttributeError)) (\<lambda>optional_params.
      (case dict_pop optional_params ''functions'' PNone of
         (functions, optional_params) \<Rightarrow>
      (case dict_pop optional_params ''tools'' PNone of
         (tools, optional_params) \<Rightarrow>
      (let prompt = [(''messages'', dict_get kwargs ''messages'' PNone)];
           prompt = (if functions \<noteq> PNone then dict_set prompt ''functions'' functions
                     else prompt);
           prompt = (if tools \<noteq> PNone then dict_set prompt ''tools'' tools else prompt);
           optional_params = stringify_params E optional_params in
       bindM (liftM (get_langfuse_input_output_content E kwargs response_obj (PDict prompt)
                       level status_message)) (\<lambda>(inp, outp).
       if is_langfuse_v2 (langfuse_version E) then
         log_langfuse_v2 E self
           \<lparr>arg_user_id = user_id, arg_metadata = metadata,
            arg_litellm_params = litellm_params, arg_output = outp,
            arg_start_time = start_time, arg_end_time = end_time, arg_kwargs = kwargs,
            arg_optional_params = PDict optional_params, arg_input = inp,
            arg_response_obj = response_obj, arg_level = level,
            arg_litellm_call_id = litellm_call_id\<rparr>
       else if response_obj \<noteq> PNone then
         bindM (log_langfuse_v1 self user_id metadata outp start_time end_time kwargs
                  (PDict optional_params) inp response_obj) (\<lambda>_.
         returnM (PNone, PNone))
       else returnM (PNone, PNone)))))))))"

definition log_event_on_langfuse ::
  "'a lf_env_scheme \<Rightarrow> 'b lf_logger_scheme \<Rightarrow> pdict \<Rightarrow> pyval \<Rightarrow> pyval \<Rightarrow> pyval \<Rightarrow> pyval \<Rightarrow>
     string \<Rightarrow> pyval \<Rightarrow> (pyval \<times> pyval) lf_m" where
  \<comment> \<open>the result is the pair \<open>(trace_id, generation_id)\<close> of the returned dictionary\<close>
  "log_event_on_langfuse E self kwargs response_obj start_time end_time user_id level
       status_message =
     try_except
       (log_event_body E self kwargs response_obj start_time end_time user_id level
          status_message)
       (\<lambda>e. returnM (PNone, PNone))"

section \<open>Properties of computations\<close>

text \<open>
  A creation call that failed: an entry of the log whose call raised and is not a prompt
  lookup (the lookup of a prompt creates nothing, and the source catches its exception
  on the spot).
\<close>

definition creation_failed :: "lf_log \<Rightarrow> bool" where
  "creation_failed new =
     (\<exists>c \<in> set new. \<not> snd c \<and> (case fst c of GetPrompt i \<Rightarrow> False | _ \<Rightarrow> True))"

text \<open>
  \<open>fail_closed m\<close>: \<open>m\<close> only appends to the log, and raises when a creation call it made
  failed. \<open>guarded m\<close>: when a creation call failed, \<open>m\<close> raises or returns the pair of
  \<open>None\<close>. \<open>never_raises m\<close>: \<open>m\<close> returns a pair, the pair of \<open>None\<close> when a creation call
  failed.
\<close>

definition fail_closed :: "'a lf_m \<Rightarrow> bool" where
  "fail_closed m =
     (\<forall>log. \<exists>new r. m log = (r, log @ new) \<and> (creation_failed new \<longrightarrow> \<not> is_ok r))"

definition guarded :: "(pyval \<times> pyval) lf_m \<Rightarrow> bool" where
  "guarded m =
     (\<forall>log. \<exists>new r. m log = (r, log @ new) \<and>
        (creation_failed new \<longrightarrow> \<not> is_ok r \<or> r = Inr (PNone, PNone)))"

definition never_raises :: "(pyval \<times> pyval) lf_m \<Rightarrow> bool" where
  "never_raises m =
     (\<forall>log. \<exists>new r. m log = (Inr r, log @ new) \<and>
        (creation_failed new \<longrightarrow> r = (PNone, PNone)))"

text \<open>
  \<open>emits m P Q\<close>: \<open>m\<close> only appends to the log, every call it makes satisfies \<open>P\<close>, and a
  returned value satisfies \<open>Q\<close>.
\<close>

definition emits :: "'a lf_m \<Rightarrow> (lf_call \<Rightarrow> bool) \<Rightarrow> ('a \<Rightarrow> bool) \<Rightarrow> bool" where
  "emits m P Q =
     (\<forall>log. \<exists>new r. m log = (r, log @ new) \<and> (\<forall>c \<in> set new. P (fst c)) \<and>
        (\<forall>x. r = Inr x \<longrightarrow> Q x))"

text \<open>The calls a computation adds to the log, and among them the traces and generations.\<close>

definition new_calls :: "'a lf_m \<Rightarrow> lf_log \<Rightarrow> lf_call list" where
  "new_calls m log = map fst (drop (length log) (snd (m log)))"

definition redact_adds_no_key :: "'a lf_env_scheme \<Rightarrow> bool" where
  \<comment> \<open>the redaction of the metadata invents no key\<close>
  "redact_adds_no_key E =
     (\<forall>m. set (dict_keys (redact_user_api_key_info E m)) \<subseteq> set (dict_keys m))"

definition is_span :: "lf_call \<Rightarrow> bool" where
  "is_span c = (case c of Span p \<Rightarrow> True | SpanEnd \<Rightarrow> True | _ \<Rightarrow> False)"

definition is_get_prompt :: "lf_call \<Rightarrow> bool" where
  "is_get_prompt c = (case c of GetPrompt i \<Rightarrow> True | _ \<Rightarrow> False)"

text \<open>
  What a call made by \<open>_log_langfuse_v2\<close> can be: the trace with the parameters of the
  trace stage; a generation with the parameters built for it, with or without a prompt,
  and finished; spans and prompt lookups.
\<close>

definition v2_call_ok ::
  "'a lf_env_scheme \<Rightarrow> 'b lf_logger_scheme \<Rightarrow> v2_args \<Rightarrow> lf_call \<Rightarrow> bool" where
  "v2_call_ok E self a c =
     (case c of
        Trace tp \<Rightarrow> (\<exists>st. v2_trace_stage E self a = Inr st \<and> tp = st_trace_params st)
      | Generation gp \<Rightarrow>
          (\<exists>st gp0 gid cm gp1.
             v2_trace_stage E self a = Inr st \<and>
             build_generation_params E self a st = Inr (gp0, gid, cm) \<and>
             (gp1 = gp0 \<or> (\<exists>p. gp1 = dict_set gp0 ''prompt'' p)) \<and>
             gp = finish_generation_params self a st gp1)
      | Span p \<Rightarrow> True
      | SpanEnd \<Rightarrow> True
      | GetPrompt i \<Rightarrow> True
      | _ \<Rightarrow> False)"

text \<open>The keys that \<open>pop_control_fields\<close> takes out of the clean metadata.\<close>

definition control_keys :: "string list" where
  "control_keys = [''session_id'', ''trace_name'', ''trace_id'', ''existing_trace_id'',
                   ''update_trace_keys'', ''debug_langfuse'', ''mask_input'', ''mask_output'']"

definition trace_calls :: "lf_call list \<Rightarrow> pdict list" where
  \<comment> \<open>the parameters of the trace calls among \<open>cs\<close>\<close>
  "trace_calls cs = concat (map (\<lambda>c. case c of Trace tp \<Rightarrow> [tp] | _ \<Rightarrow> []) cs)"

definition generation_calls :: "lf_call list \<Rightarrow> pdict list" where
  "generation_calls cs = concat (map (\<lambda>c. case c of Generation gp \<Rightarrow> [gp] | _ \<Rightarrow> []) cs)"

definition spec_strip_trace_prefix :: "string \<Rightarrow> string" where
  \<comment> \<open>the specification's reading of a key of \<open>update_trace_keys\<close>: a leading \<^verbatim>\<open>trace_\<close> is
      stripped (the source removes every occurrence, see \<open>patch_loop\<close>)\<close>
  "spec_strip_trace_prefix k = (if prefix ''trace_'' k then drop 6 k else k)"

section \<open>An example environment\<close>

text \<open>
  A concrete environment and logger, for evaluating the functions on concrete calls: SDK
  version 2.7.3, no default tags, no cache, a redaction that changes nothing, a message
  serialised as the dictionary of its fields, and a client that accepts every call.
\<close>

definition example_env :: lf_env where
  "example_env =
     \<lparr>langfuse_version = [2, 7, 3],
      langfuse_default_tags = PNone,
      litellm_cache = None,
      PROXY_BASE_URL = None,
      redact_user_api_key_info = (\<lambda>m. m),
      get_logging_id = (\<lambda>start_time response_obj. Inr (PStr ''time-id'')),
      str_other = (\<lambda>v. Inr ''<object>''),
      message_json = (\<lambda>m. case m of PObj c attrs \<Rightarrow> Inr (PDict attrs) | _ \<Rightarrow> Inl AttributeError),
      Prompt_Chat = (\<lambda>d. Inr (PObj ''Prompt_Chat'' d)),
      Prompt_Text = (\<lambda>d. Inr (PObj ''Prompt_Text'' d)),
      ChatPromptClient = (\<lambda>p. Inr (PObj ''ChatPromptClient'' [(''prompt'', p)])),
      TextPromptClient = (\<lambda>p. Inr (PObj ''TextPromptClient'' [(''prompt'', p)])),
      prompt_text_fields = [''name'', ''version'', ''config'', ''labels'', ''tags'', ''prompt''],
      prompt_chat_fields = [''name'', ''version'', ''config'', ''labels'', ''tags'', ''prompt'']\<rparr>"

definition example_client :: lf_client where
  "example_client = (\<lambda>log c. Inr (PObj ''StatefulClient'' [(''trace_id'', PStr ''trace-1'')]))"

definition example_logger :: lf_logger where
  "example_logger = \<lparr>langfuse_sdk_version = [2, 7, 3], Langfuse = example_client\<rparr>"

text \<open>
  A chat completion call without response: the arguments of \<open>_log_langfuse_v2\<close> for a given
  metadata dictionary, level and output.
\<close>

definition example_kwargs :: pdict where
  "example_kwargs =
     [(''model'', PStr ''gpt-4''),
      (''messages'', PList [PDict [(''role'', PStr ''user''), (''content'', PStr ''hi'')]]),
      (''call_type'', PStr ''completion'')]"

definition example_args :: "pdict \<Rightarrow> string \<Rightarrow> pyval \<Rightarrow> v2_args" where
  "example_args md level outp =
     \<lparr>arg_user_id = PNone, arg_metadata = PDict md, arg_litellm_params = PDict [],
      arg_output = outp, arg_start_time = PNone, arg_end_time = PNone,
      arg_kwargs = example_kwargs, arg_optional_params = PDict [],
      arg_input = PDict [(''messages'', PStr ''hi'')], arg_response_obj = PNone,
      arg_level = level, arg_litellm_call_id = PStr ''call-1''\<rparr>"

section \<open>Theorems\<close>

subsection \<open>Capability gating\<close>

lemma version_ge_examples:
  "\<not> version_ge [2, 5, 0] [2, 6, 3]" "version_ge [2, 5, 0] [2, 0, 0]"
  "version_ge [2, 6, 3] [2, 6, 3]" "version_ge [2, 7, 3] [2, 6, 3]"
  "version_ge [2, 7, 3] [2, 7, 3]" "version_ge [2, 7, 3] [2, 0, 0]"
  by (simp_all add: version_ge_def strip_zeros_def)




subsection \<open>Client creation\<close>

lemma safe_init_counter_le:
  "n \<le> M \<Longrightarrow> snd (safe_init_langfuse_client M ctor p n) \<le> M"
  by (simp add: safe_init_langfuse_client_def split: sum.splits)

lemma init_clients_counter_le:
  "n \<le> M \<Longrightarrow> snd (init_clients M ctor ps n) \<le> M"
proof (induction ps arbitrary: n)
  case Nil
  then show ?case by simp
next
  case (Cons p ps)
  obtain r n' where s: "safe_init_langfuse_client M ctor p n = (r, n')"
    by (cases "safe_init_langfuse_client M ctor p n")
  with Cons.prems safe_init_counter_le [of n M ctor p] have "n' \<le> M" by simp
  from Cons.IH [OF this] s show ?case by (auto split: prod.splits)
qed

lemma init_clients_all_succeed:
  "n + int (length ps) \<le> M \<Longrightarrow> \<forall>p \<in> set ps. is_ok (ctor p) \<Longrightarrow>
   init_clients M ctor ps n = (map ctor ps, n + int (length ps))"
proof (induction ps arbitrary: n)
  case Nil
  then show ?case by simp
next
  case (Cons p ps)
  from Cons.prems obtain c where c: "ctor p = Inr c"
    by (cases "ctor p") (auto simp: is_ok_def)
  from Cons.prems have lt: "n < M" by simp
  from c lt have s: "safe_init_langfuse_client M ctor p n = (Inr c, n + 1)"
    by (simp add: safe_init_langfuse_client_def)
  from Cons.prems have "(n + 1) + int (length ps) \<le> M" "\<forall>p \<in> set ps. is_ok (ctor p)"
    by simp_all
  from Cons.IH [OF this] s c show ?case by simp
qed

lemma init_clients_append:
  "init_clients M ctor (ps @ qs) n =
     (case init_clients M ctor ps n of
        (rs, n') \<Rightarrow> (case init_clients M ctor qs n' of (rs', n'') \<Rightarrow> (rs @ rs', n'')))"
  by (induction ps arbitrary: n) (auto split: prod.splits)

text \<open>
  Claim C4. With a maximum \<open>M\<close> of live clients and the counter starting at zero: the
  counter never exceeds \<open>M\<close>, whatever the sequence of creation attempts and whatever the
  constructor does; below \<open>M\<close> a creation whose constructor returns succeeds and adds one
  to the counter; at \<open>M\<close> (or above) a creation fails with the capacity error and leaves
  the counter; so \<open>M\<close> creations succeed and bring the counter to \<open>M\<close>, and the next one
  fails.
\<close>

theorem client_creation_capacity:
  assumes "0 \<le> M"
  shows "snd (init_clients M ctor ps 0) \<le> M \<and>
         (\<forall>n p c. n < M \<and> ctor p = Inr c \<longrightarrow>
            safe_init_langfuse_client M ctor p n = (Inr c, n + 1)) \<and>
         (\<forall>n p. M \<le> n \<longrightarrow>
            safe_init_langfuse_client M ctor p n = (Inl (MaxClientsReached n M), n)) \<and>
         (int (length ps) = M \<and> (\<forall>p \<in> set ps. is_ok (ctor p)) \<longrightarrow>
            init_clients M ctor ps 0 = (map ctor ps, M) \<and>
            init_clients M ctor (ps @ [q]) 0 =
              (map ctor ps @ [Inl (MaxClientsReached M M)], M))"
proof (intro conjI allI impI)
  show "snd (init_clients M ctor ps 0) \<le> M"
    using assms by (rule init_clients_counter_le)
next
  fix n p c
  assume "n < M \<and> ctor p = Inr c"
  then show "safe_init_langfuse_client M ctor p n = (Inr c, n + 1)"
    by (simp add: safe_init_langfuse_client_def)
next
  fix n :: int and p :: pdict
  assume "M \<le> n"
  then show "safe_init_langfuse_client M ctor p n = (Inl (MaxClientsReached n M), n)"
    by (simp add: safe_init_langfuse_client_def)
next
  assume h: "int (length ps) = M \<and> (\<forall>p \<in> set ps. is_ok (ctor p))"
  then show all: "init_clients M ctor ps 0 = (map ctor ps, M)"
    using init_clients_all_succeed [of 0 ps M ctor] by simp
  show "init_clients M ctor (ps @ [q]) 0 = (map ctor ps @ [Inl (MaxClientsReached M M)], M)"
    by (simp add: init_clients_append all safe_init_langfuse_client_def)
qed

theorem client_creation_capacity_witness:
  "(0::int) \<le> 2 \<and>
   init_clients 2 (\<lambda>p. Inr p) [[], [(''host'', PStr ''h'')]] 0 =
     ([Inr [], Inr [(''host'', PStr ''h'')]], 2) \<and>
   init_clients 2 (\<lambda>p. Inr p) ([[], [(''host'', PStr ''h'')]] @ [[]]) 0 =
     ([Inr [], Inr [(''host'', PStr ''h'')]] @ [Inl (MaxClientsReached 2 2)], 2)"
  using client_creation_capacity
    [of 2 "\<lambda>p. Inr p" "[[], [(''host'', PStr ''h'')]]" "[]"]
  by (simp add: is_ok_def)


subsection \<open>Input and output\<close>

lemma isinstance_PObj [simp]: "isinstance (PObj c attrs) cls = (c = cls)"
  by (simp add: isinstance_def)

lemma isinstance_simps [simp]:
  "isinstance PNone cls = False" "isinstance (PList xs) cls = False"
  "isinstance (PDict d) cls = False" "isinstance (PStr s) cls = False"
  by (simp_all add: isinstance_def)

lemma is_kind_simps [simp]:
  "is_str (PStr s)" "\<not> is_str PNone" "is_list (PList xs)" "is_dict (PDict d)"
  "\<not> is_list (PObj c attrs)" "\<not> is_dict (PObj c attrs)" "\<not> is_dict (PList xs)"
  "\<not> is_list (PDict d)"
  by (simp_all add: is_str_def is_list_def is_dict_def)







subsection \<open>Header merge\<close>

lemma header_loop_dict:
  "header_loop (PDict hs) (map PStr ks) (PDict md) =
     Inr (PDict (fold (\<lambda>k m. if prefix ''langfuse_'' k
                               then dict_set m (remove_first ''langfuse_'' k) (dict_get hs k PNone)
                               else m) ks md))"
  by (induction ks arbitrary: md)
     (simp_all add: py_contains_def py_get_def py_setitem_def Let_def)

lemma remove_first_prefix: "remove_first p (p @ s) = s"
proof (cases "p @ s")
  case Nil
  then show ?thesis by simp
next
  case (Cons a l)
  have "prefix p (a # l)" unfolding Cons [symmetric] by simp
  moreover have "drop (length p) (a # l) = s" unfolding Cons [symmetric] by simp
  ultimately show ?thesis unfolding Cons by simp
qed

lemma header_fold_lookup:
  "map_of (fold (\<lambda>k m. if prefix ''langfuse_'' k
                        then dict_set m (remove_first ''langfuse_'' k) (dict_get hs k PNone)
                        else m) ks md) j =
     (if ''langfuse_'' @ j \<in> set ks then Some (dict_get hs (''langfuse_'' @ j) PNone)
      else map_of md j)"
proof (induction ks arbitrary: md)
  case Nil
  then show ?case by simp
next
  case (Cons k ks)
  show ?case
  proof (cases "prefix ''langfuse_'' k")
    case True
    then obtain j0 where k: "k = ''langfuse_'' @ j0" by (auto simp: prefix_def)
    have "remove_first ''langfuse_'' k = j0" unfolding k by (rule remove_first_prefix)
    then show ?thesis using True k
      by (auto simp add: Cons.IH dict_set_def update_conv' simp del: remove_first.simps)
  next
    case False
    then have "k \<noteq> ''langfuse_'' @ j" by auto
    with False show ?thesis by (simp add: Cons.IH)
  qed
qed

lemma header_fold_id:
  "\<forall>k \<in> set ks. \<not> prefix ''langfuse_'' k \<Longrightarrow>
   fold (\<lambda>k m. if prefix ''langfuse_'' k
                then dict_set m (remove_first ''langfuse_'' k) (dict_get hs k PNone)
                else m) ks md = md"
  by (induction ks arbitrary: md) simp_all

lemma map_of_keys_iff: "(k \<in> set (dict_keys d)) = (map_of d k \<noteq> None)"
  by (simp add: dict_keys_def map_of_eq_None_iff)

text \<open>
  Claim C9. When the request of \<open>litellm_params\<close> has the header dictionary \<open>hs\<close>, the merge
  of the headers into the metadata dictionary \<open>md\<close> returns a dictionary \<open>md'\<close> in which the
  key \<open>j\<close> has the value of the header \<^verbatim>\<open>langfuse_\<close>\<open>j\<close> when there is such a header, whatever
  \<open>md\<close> had under \<open>j\<close>, and the value it has in \<open>md\<close> otherwise; with no header of that prefix,
  \<open>md'\<close> is \<open>md\<close>. A metadata of \<open>None\<close> is merged as the empty dictionary. Without
  \<open>litellm_params\<close> or without a proxy request, the metadata is returned as it is.
\<close>

theorem header_merge:
  "(map_of lp ''proxy_server_request'' = Some (PDict req) \<and>
    map_of req ''headers'' = Some (PDict hs) \<longrightarrow>
      (\<exists>md'. add_metadata_from_header (PDict lp) (PDict md) = Inr (PDict md') \<and>
         (\<forall>j. map_of md' j =
                (case map_of hs (''langfuse_'' @ j) of Some v \<Rightarrow> Some v | None \<Rightarrow> map_of md j)) \<and>
         ((\<forall>k \<in> set (dict_keys hs). \<not> prefix ''langfuse_'' k) \<longrightarrow> md' = md)) \<and>
      add_metadata_from_header (PDict lp) PNone = add_metadata_from_header (PDict lp) (PDict [])) \<and>
   add_metadata_from_header PNone metadata = Inr metadata \<and>
   (dict_get lp ''proxy_server_request'' PNone = PNone \<longrightarrow>
      add_metadata_from_header (PDict lp) metadata = Inr metadata)"
proof (intro conjI impI)
  assume h: "map_of lp ''proxy_server_request'' = Some (PDict req) \<and>
             map_of req ''headers'' = Some (PDict hs)"
  let ?F = "\<lambda>k m. if prefix ''langfuse_'' k
                   then dict_set m (remove_first ''langfuse_'' k) (dict_get hs k PNone) else m"
  let ?md' = "fold ?F (dict_keys hs) md"
  have hs: "py_or (PDict hs) (PDict []) = PDict hs"
    by (cases hs) (simp_all add: py_or_def)
  have run: "\<And>m. add_metadata_from_header (PDict lp) (PDict m) =
               Inr (PDict (fold ?F (dict_keys hs) m))"
    using h by (simp add: add_metadata_from_header_def py_get_def dict_get_def hs py_iter_def
                  header_loop_dict)
  have look: "\<forall>j. map_of ?md' j =
                (case map_of hs (''langfuse_'' @ j) of Some v \<Rightarrow> Some v | None \<Rightarrow> map_of md j)"
    by (auto simp add: header_fold_lookup map_of_keys_iff dict_get_def split: option.splits)
  have same: "(\<forall>k \<in> set (dict_keys hs). \<not> prefix ''langfuse_'' k) \<longrightarrow> ?md' = md"
    using header_fold_id [of "dict_keys hs" hs md] by blast
  from run [of md] look same
  show "\<exists>md'. add_metadata_from_header (PDict lp) (PDict md) = Inr (PDict md') \<and>
         (\<forall>j. map_of md' j =
                (case map_of hs (''langfuse_'' @ j) of Some v \<Rightarrow> Some v | None \<Rightarrow> map_of md j)) \<and>
         ((\<forall>k \<in> set (dict_keys hs). \<not> prefix ''langfuse_'' k) \<longrightarrow> md' = md)"
    by blast
  show "add_metadata_from_header (PDict lp) PNone = add_metadata_from_header (PDict lp) (PDict [])"
    using h by (simp add: add_metadata_from_header_def py_get_def dict_get_def)
next
  show "add_metadata_from_header PNone metadata = Inr metadata"
    by (simp add: add_metadata_from_header_def)
next
  assume "dict_get lp ''proxy_server_request'' PNone = PNone"
  then show "add_metadata_from_header (PDict lp) metadata = Inr metadata"
    by (simp add: add_metadata_from_header_def py_get_def)
qed

theorem header_merge_witness:
  "\<exists>md'. add_metadata_from_header
     (PDict [(''proxy_server_request'',
              PDict [(''headers'', PDict [(''langfuse_trace_id'', PStr ''t1''),
                                          (''accept'', PStr ''json'')])])])
     (PDict [(''trace_id'', PStr ''old''), (''user'', PStr ''u'')]) = Inr (PDict md') \<and>
     map_of md' ''trace_id'' = Some (PStr ''t1'') \<and> map_of md' ''user'' = Some (PStr ''u'')"
proof -
  let ?hs = "[(''langfuse_trace_id'', PStr ''t1''), (''accept'', PStr ''json'')]"
  let ?req = "[(''headers'', PDict ?hs)]"
  let ?lp = "[(''proxy_server_request'', PDict ?req)]"
  let ?md = "[(''trace_id'', PStr ''old''), (''user'', PStr ''u'')]"
  have "map_of ?lp ''proxy_server_request'' = Some (PDict ?req) \<and>
        map_of ?req ''headers'' = Some (PDict ?hs)" by simp
  with header_merge [of ?lp ?req ?hs ?md]
  obtain md' where r: "add_metadata_from_header (PDict ?lp) (PDict ?md) = Inr (PDict md')"
    and l: "\<forall>j. map_of md' j =
              (case map_of ?hs (''langfuse_'' @ j) of Some v \<Rightarrow> Some v | None \<Rightarrow> map_of ?md j)"
    by blast
  from l [rule_format, of "''trace_id''"] have "map_of md' ''trace_id'' = Some (PStr ''t1'')"
    by simp
  moreover from l [rule_format, of "''user''"] have "map_of md' ''user'' = Some (PStr ''u'')"
    by simp
  ultimately show ?thesis using r by blast
qed


subsection \<open>No exception leaves the logger\<close>

lemma creation_failed_simps [simp]:
  "\<not> creation_failed []"
  "creation_failed (xs @ ys) = (creation_failed xs \<or> creation_failed ys)"
  by (auto simp: creation_failed_def)

lemma is_ok_simps [simp]: "\<not> is_ok (Inl e)" "is_ok (Inr x)"
  by (simp_all add: is_ok_def)

lemma fail_closed_returnM [simp]: "fail_closed (returnM x)"
  by (simp add: fail_closed_def returnM_def)

lemma fail_closed_liftM [simp]: "fail_closed (liftM r)"
  by (simp add: fail_closed_def liftM_def)

lemma fail_closed_callM [simp]: "fail_closed (callM client c)"
  by (auto simp add: fail_closed_def callM_def creation_failed_def split: sum.splits)

lemma fail_closed_bindM:
  assumes "fail_closed m" and "\<And>x. fail_closed (f x)"
  shows "fail_closed (bindM m f)"
  unfolding fail_closed_def
proof
  fix log
  from assms(1) obtain new r where m: "m log = (r, log @ new)"
    and c: "creation_failed new \<longrightarrow> \<not> is_ok r"
    unfolding fail_closed_def by blast
  show "\<exists>new r. bindM m f log = (r, log @ new) \<and> (creation_failed new \<longrightarrow> \<not> is_ok r)"
  proof (cases r)
    case (Inl e)
    with m c show ?thesis by (auto simp: bindM_def)
  next
    case (Inr x)
    from assms(2) [of x] obtain new' r' where f: "f x (log @ new) = (r', (log @ new) @ new')"
      and c': "creation_failed new' \<longrightarrow> \<not> is_ok r'"
      unfolding fail_closed_def by blast
    from Inr c have "\<not> creation_failed new" by auto
    with m Inr f c' have "bindM m f log = (r', log @ (new @ new')) \<and>
        (creation_failed (new @ new') \<longrightarrow> \<not> is_ok r')"
      by (simp add: bindM_def)
    then show ?thesis by blast
  qed
qed

lemma guarded_bindM:
  assumes "fail_closed m" and "\<And>x. guarded (f x)"
  shows "guarded (bindM m f)"
  unfolding guarded_def
proof
  fix log
  from assms(1) obtain new r where m: "m log = (r, log @ new)"
    and c: "creation_failed new \<longrightarrow> \<not> is_ok r"
    unfolding fail_closed_def by blast
  show "\<exists>new r. bindM m f log = (r, log @ new) \<and>
          (creation_failed new \<longrightarrow> \<not> is_ok r \<or> r = Inr (PNone, PNone))"
  proof (cases r)
    case (Inl e)
    with m c show ?thesis by (auto simp: bindM_def)
  next
    case (Inr x)
    from assms(2) [of x] obtain new' r' where f: "f x (log @ new) = (r', (log @ new) @ new')"
      and c': "creation_failed new' \<longrightarrow> \<not> is_ok r' \<or> r' = Inr (PNone, PNone)"
      unfolding guarded_def by blast
    from Inr c have "\<not> creation_failed new" by auto
    with m Inr f c' have "bindM m f log = (r', log @ (new @ new')) \<and>
        (creation_failed (new @ new') \<longrightarrow> \<not> is_ok r' \<or> r' = Inr (PNone, PNone))"
      by (simp add: bindM_def)
    then show ?thesis by blast
  qed
qed

lemma guarded_returnM [simp]: "guarded (returnM x)"
  by (simp add: guarded_def returnM_def)

lemma never_raises_guarded: "never_raises m \<Longrightarrow> guarded m"
  unfolding never_raises_def guarded_def by (metis is_ok_simps(2))

lemma never_raises_try_except:
  assumes "guarded m"
  shows "never_raises (try_except m (\<lambda>e. returnM (PNone, PNone)))"
  unfolding never_raises_def
proof
  fix log
  from assms obtain new r where m: "m log = (r, log @ new)"
    and c: "creation_failed new \<longrightarrow> \<not> is_ok r \<or> r = Inr (PNone, PNone)"
    unfolding guarded_def by blast
  show "\<exists>new r. try_except m (\<lambda>e. returnM (PNone, PNone)) log = (Inr r, log @ new) \<and>
          (creation_failed new \<longrightarrow> r = (PNone, PNone))"
    using m c by (cases r) (auto simp: try_except_def returnM_def)
qed

lemma fail_closed_guarded: "fail_closed m \<Longrightarrow> guarded m"
  unfolding fail_closed_def guarded_def by blast

lemma fail_closed_call_spans [simp]: "fail_closed (call_spans client ps)"
  by (induction ps) (simp_all add: fail_closed_bindM)

lemma fail_closed_provider [simp]:
  "fail_closed (log_provider_specific_information_as_span client cm)"
  by (simp add: log_provider_specific_information_as_span_def Let_def fail_closed_bindM)

lemma fail_closed_guardrail [simp]:
  "fail_closed (log_guardrail_information_as_span client slo)"
  by (simp add: log_guardrail_information_as_span_def fail_closed_bindM)

lemma fail_closed_get_prompt:
  "fail_closed (try_except
      (bindM (liftM r) (\<lambda>prompt_id. bindM (callM client (GetPrompt prompt_id)) (\<lambda>p. returnM (g p))))
      (\<lambda>e. returnM y))"
  by (auto simp add: fail_closed_def try_except_def bindM_def liftM_def callM_def returnM_def
        creation_failed_def split: sum.splits)

lemma fail_closed_add_prompt [simp]:
  "fail_closed (add_prompt_to_generation_params E client gp cm pmm)"
  by (auto simp add: add_prompt_to_generation_params_def Let_def fail_closed_bindM
        fail_closed_get_prompt split: pyval.splits)

lemma fail_closed_v2_body: "fail_closed (v2_body E self a)"
  unfolding v2_body_def
  by (intro fail_closed_bindM fail_closed_liftM fail_closed_callM fail_closed_provider
        fail_closed_guardrail fail_closed_returnM)
     (auto simp add: fail_closed_bindM split: prod.splits)

lemma never_raises_v2: "never_raises (log_langfuse_v2 E self a)"
  unfolding log_langfuse_v2_def
  by (rule never_raises_try_except) (rule fail_closed_guarded, rule fail_closed_v2_body)

lemma fail_closed_v1:
  "fail_closed (log_langfuse_v1 self user_id metadata outp st et kwargs op inp resp)"
  unfolding log_langfuse_v1_def
  by (intro fail_closed_bindM fail_closed_liftM fail_closed_callM fail_closed_returnM)

lemma guarded_log_event_body:
  "guarded (log_event_body E self kwargs resp st et uid level sm)"
  unfolding log_event_body_def Let_def
  by (auto intro!: guarded_bindM fail_closed_liftM
        simp add: never_raises_guarded never_raises_v2 fail_closed_v1 split: prod.splits)





subsection \<open>The calls of the v2 protocol\<close>

lemma emits_returnM: "Q x \<Longrightarrow> emits (returnM x) P Q"
  by (simp add: emits_def returnM_def)

lemma emits_liftM: "(\<And>x. r = Inr x \<Longrightarrow> Q x) \<Longrightarrow> emits (liftM r) P Q"
  by (simp add: emits_def liftM_def)

lemma emits_callM: "P c \<Longrightarrow> (\<And>x. Q x) \<Longrightarrow> emits (callM client c) P Q"
  by (auto simp add: emits_def callM_def split: sum.splits)

lemma emits_bindM:
  assumes "emits m P Q" and "\<And>x. Q x \<Longrightarrow> emits (f x) P R"
  shows "emits (bindM m f) P R"
  unfolding emits_def
proof
  fix log
  from assms(1) obtain new r where m: "m log = (r, log @ new)"
    and p: "\<forall>c \<in> set new. P (fst c)" and q: "\<forall>x. r = Inr x \<longrightarrow> Q x"
    unfolding emits_def by blast
  show "\<exists>new r. bindM m f log = (r, log @ new) \<and> (\<forall>c \<in> set new. P (fst c)) \<and>
          (\<forall>x. r = Inr x \<longrightarrow> R x)"
  proof (cases r)
    case (Inl e)
    with m p show ?thesis by (auto simp: bindM_def)
  next
    case (Inr x)
    with q have "Q x" by simp
    from assms(2) [OF this] obtain new' r' where f: "f x (log @ new) = (r', (log @ new) @ new')"
      and p': "\<forall>c \<in> set new'. P (fst c)" and r': "\<forall>y. r' = Inr y \<longrightarrow> R y"
      unfolding emits_def by blast
    from m Inr f p p' r' have "bindM m f log = (r', log @ (new @ new')) \<and>
        (\<forall>c \<in> set (new @ new'). P (fst c)) \<and> (\<forall>y. r' = Inr y \<longrightarrow> R y)"
      by (auto simp add: bindM_def)
    then show ?thesis by blast
  qed
qed

lemma emits_try_except:
  assumes "emits m P Q" and "\<And>e. emits (h e) P Q"
  shows "emits (try_except m h) P Q"
  unfolding emits_def
proof
  fix log
  from assms(1) obtain new r where m: "m log = (r, log @ new)"
    and p: "\<forall>c \<in> set new. P (fst c)" and q: "\<forall>x. r = Inr x \<longrightarrow> Q x"
    unfolding emits_def by blast
  show "\<exists>new r. try_except m h log = (r, log @ new) \<and> (\<forall>c \<in> set new. P (fst c)) \<and>
          (\<forall>x. r = Inr x \<longrightarrow> Q x)"
  proof (cases r)
    case (Inr x)
    with m p q show ?thesis by (auto simp: try_except_def)
  next
    case (Inl e)
    from assms(2) [of e] obtain new' r' where f: "h e (log @ new) = (r', (log @ new) @ new')"
      and p': "\<forall>c \<in> set new'. P (fst c)" and r': "\<forall>y. r' = Inr y \<longrightarrow> Q y"
      unfolding emits_def by blast
    from m Inl f p p' r' have "try_except m h log = (r', log @ (new @ new')) \<and>
        (\<forall>c \<in> set (new @ new'). P (fst c)) \<and> (\<forall>y. r' = Inr y \<longrightarrow> Q y)"
      by (auto simp add: try_except_def)
    then show ?thesis by blast
  qed
qed

lemma emits_weaken:
  "emits m P Q \<Longrightarrow> (\<And>c. P c \<Longrightarrow> P' c) \<Longrightarrow> (\<And>x. Q x \<Longrightarrow> Q' x) \<Longrightarrow> emits m P' Q'"
  unfolding emits_def by (metis (no_types, lifting))

lemma emits_new_calls:
  "emits m P Q \<Longrightarrow> c \<in> set (new_calls m log) \<Longrightarrow> P c"
  unfolding emits_def new_calls_def
  by (metis (no_types, lifting) append_eq_conv_conj imageE list.set_map snd_conv)

lemma emits_call_spans: "emits (call_spans client ps) is_span (\<lambda>_. True)"
  by (induction ps)
     (auto intro!: emits_returnM emits_bindM [where Q = "\<lambda>_. True"] emits_callM simp: is_span_def)

lemma emits_provider:
  "emits (log_provider_specific_information_as_span client cm) is_span (\<lambda>_. True)"
  unfolding log_provider_specific_information_as_span_def Let_def
  by (auto intro!: emits_returnM emits_bindM [where Q = "\<lambda>_. True"] emits_liftM emits_call_spans)

lemma emits_guardrail:
  "emits (log_guardrail_information_as_span client slo) is_span (\<lambda>_. True)"
  unfolding log_guardrail_information_as_span_def
  by (auto intro!: emits_returnM emits_bindM [where Q = "\<lambda>_. True"] emits_liftM emits_callM
        simp: is_span_def)

lemma bindE_eq_Inr: "(bindE m f = Inr y) = (\<exists>x. m = Inr x \<and> f x = Inr y)"
  by (cases m) auto

lemma emits_prompt_lookup:
  "emits (try_except
            (bindM (liftM r) (\<lambda>prompt_id.
             bindM (callM client (GetPrompt prompt_id)) (\<lambda>p.
             returnM (dict_set gp ''prompt'' p))))
            (\<lambda>e. returnM gp))
     is_get_prompt (\<lambda>gp1. gp1 = gp \<or> (\<exists>p. gp1 = dict_set gp ''prompt'' p))"
  by (intro emits_try_except emits_bindM [where Q = "\<lambda>_. True"] emits_liftM emits_callM
        emits_returnM)
     (auto simp: is_get_prompt_def)

lemma emits_prompt_return:
  "emits (returnM gp) P (\<lambda>gp1. gp1 = gp \<or> (\<exists>p. gp1 = dict_set gp ''prompt'' p))"
  "emits (returnM (dict_set gp ''prompt'' x)) P
     (\<lambda>gp1. gp1 = gp \<or> (\<exists>p. gp1 = dict_set gp ''prompt'' p))"
  by (auto intro!: emits_returnM)

lemma emits_prompt_client:
  "emits (liftM (bindE r (\<lambda>p. bindE (f p) (\<lambda>c. Inr (dict_set gp ''prompt'' c))))) P
     (\<lambda>gp1. gp1 = gp \<or> (\<exists>p. gp1 = dict_set gp ''prompt'' p))"
  "emits (liftM (bindE d (\<lambda>data. bindE (g data) (\<lambda>p. bindE (f p) (\<lambda>c.
            Inr (dict_set gp ''prompt'' c)))))) P
     (\<lambda>gp1. gp1 = gp \<or> (\<exists>p. gp1 = dict_set gp ''prompt'' p))"
  by (auto intro!: emits_liftM simp: bindE_eq_Inr)

lemma emits_add_prompt:
  "emits (add_prompt_to_generation_params E client gp cm pmm) is_get_prompt
     (\<lambda>gp1. gp1 = gp \<or> (\<exists>p. gp1 = dict_set gp ''prompt'' p))"
  unfolding add_prompt_to_generation_params_def Let_def
  by (auto simp add: emits_prompt_return emits_prompt_client emits_prompt_lookup
        split: pyval.split
        intro!: emits_bindM [where Q = "\<lambda>_. True"] emits_liftM)


lemma v2_call_ok_aux:
  "is_span c \<Longrightarrow> v2_call_ok E self a c" "is_get_prompt c \<Longrightarrow> v2_call_ok E self a c"
  by (auto simp: is_span_def is_get_prompt_def v2_call_ok_def split: lf_call.splits)

lemma emits_v2_tail:
  assumes st: "v2_trace_stage E self a = Inr st"
    and gen: "build_generation_params E self a st = Inr (gp0, gid, cm)"
  shows "emits
     (bindM (if supports_prompt self
            then add_prompt_to_generation_params E (Langfuse self) gp0 cm
                   (st_prompt_management_metadata st)
            else returnM gp0) (\<lambda>generation_params.
     bindM (callM (Langfuse self)
              (Generation (finish_generation_params self a st generation_params)))
       (\<lambda>generation_client.
     bindM (liftM (py_attr generation_client ''trace_id'')) (\<lambda>trace_id.
     returnM (trace_id, gid)))))
     (v2_call_ok E self a) (\<lambda>_. True)"
proof (rule emits_bindM
    [where Q = "\<lambda>gp1. gp1 = gp0 \<or> (\<exists>p. gp1 = dict_set gp0 ''prompt'' p)"])
  show "emits (if supports_prompt self
            then add_prompt_to_generation_params E (Langfuse self) gp0 cm
                   (st_prompt_management_metadata st)
            else returnM gp0) (v2_call_ok E self a)
          (\<lambda>gp1. gp1 = gp0 \<or> (\<exists>p. gp1 = dict_set gp0 ''prompt'' p))"
    by (auto intro: emits_weaken [OF emits_add_prompt] v2_call_ok_aux emits_prompt_return)
next
  fix gp1
  assume gp1: "gp1 = gp0 \<or> (\<exists>p. gp1 = dict_set gp0 ''prompt'' p)"
  have "v2_call_ok E self a (Generation (finish_generation_params self a st gp1))"
    unfolding v2_call_ok_def using st gen gp1 by auto
  then show "emits (bindM (callM (Langfuse self)
              (Generation (finish_generation_params self a st gp1)))
       (\<lambda>generation_client.
     bindM (liftM (py_attr generation_client ''trace_id'')) (\<lambda>trace_id.
     returnM (trace_id, gid)))) (v2_call_ok E self a) (\<lambda>_. True)"
    by (intro emits_bindM [where Q = "\<lambda>_. True"] emits_callM emits_liftM emits_returnM)
       simp_all
qed

lemma emits_v2_body: "emits (v2_body E self a) (v2_call_ok E self a) (\<lambda>_. True)"
  unfolding v2_body_def
proof (rule emits_bindM [where Q = "\<lambda>st. v2_trace_stage E self a = Inr st"])
  show "emits (liftM (v2_trace_stage E self a)) (v2_call_ok E self a)
          (\<lambda>st. v2_trace_stage E self a = Inr st)"
    by (rule emits_liftM)
next
  fix st
  assume st: "v2_trace_stage E self a = Inr st"
  have trace: "v2_call_ok E self a (Trace (st_trace_params st))"
    using st by (simp add: v2_call_ok_def)
  have tail: "\<And>x. build_generation_params E self a st = Inr x \<Longrightarrow>
     emits ((\<lambda>(generation_params, generation_id, clean_metadata).
     bindM (if supports_prompt self
            then add_prompt_to_generation_params E (Langfuse self) generation_params
                   clean_metadata (st_prompt_management_metadata st)
            else returnM generation_params) (\<lambda>generation_params.
     bindM (callM (Langfuse self)
              (Generation (finish_generation_params self a st generation_params)))
       (\<lambda>generation_client.
     bindM (liftM (py_attr generation_client ''trace_id'')) (\<lambda>trace_id.
     returnM (trace_id, generation_id))))) x) (v2_call_ok E self a) (\<lambda>_. True)"
    using emits_v2_tail [OF st] by (auto split: prod.splits)
  show "emits (bindM (callM (Langfuse self) (Trace (st_trace_params st)))
     (\<lambda>trace.
     bindM (log_provider_specific_information_as_span (Langfuse self) (st_clean_metadata st))
       (\<lambda>_.
     bindM (log_guardrail_information_as_span (Langfuse self)
              (st_standard_logging_object st)) (\<lambda>_.
     bindM (liftM (build_generation_params E self a st))
       (\<lambda>(generation_params, generation_id, clean_metadata).
     bindM (if supports_prompt self
            then add_prompt_to_generation_params E (Langfuse self) generation_params
                   clean_metadata (st_prompt_management_metadata st)
            else returnM generation_params) (\<lambda>generation_params.
     bindM (callM (Langfuse self)
              (Generation (finish_generation_params self a st generation_params)))
       (\<lambda>generation_client.
     bindM (liftM (py_attr generation_client ''trace_id'')) (\<lambda>trace_id.
     returnM (trace_id, generation_id)))))))))
     (v2_call_ok E self a) (\<lambda>_. True)"
    apply (rule emits_bindM [where Q = "\<lambda>_. True"])
     apply (rule emits_callM, rule trace, simp)
    apply (rule emits_bindM [where Q = "\<lambda>_. True"])
     apply (rule emits_weaken [OF emits_provider], erule v2_call_ok_aux, simp)
    apply (rule emits_bindM [where Q = "\<lambda>_. True"])
     apply (rule emits_weaken [OF emits_guardrail], erule v2_call_ok_aux, simp)
    apply (rule emits_bindM [where Q = "\<lambda>x. build_generation_params E self a st = Inr x"])
     apply (rule emits_liftM, assumption)
    apply (erule tail)
    done
qed

lemma emits_log_langfuse_v2:
  "emits (log_langfuse_v2 E self a) (v2_call_ok E self a) (\<lambda>_. True)"
  unfolding log_langfuse_v2_def
  by (intro emits_try_except emits_v2_body emits_returnM TrueI)

lemma v2_trace_submitted:
  "Trace tp \<in> set (new_calls (log_langfuse_v2 E self a) log) \<Longrightarrow>
   \<exists>st. v2_trace_stage E self a = Inr st \<and> tp = st_trace_params st"
  using emits_new_calls [OF emits_log_langfuse_v2, of "Trace tp" E self a log]
  by (simp add: v2_call_ok_def)

lemma v2_generation_submitted:
  "Generation gp \<in> set (new_calls (log_langfuse_v2 E self a) log) \<Longrightarrow>
   \<exists>st gp0 gid cm gp1.
      v2_trace_stage E self a = Inr st \<and>
      build_generation_params E self a st = Inr (gp0, gid, cm) \<and>
      (gp1 = gp0 \<or> (\<exists>p. gp1 = dict_set gp0 ''prompt'' p)) \<and>
      gp = finish_generation_params self a st gp1"
  using emits_new_calls [OF emits_log_langfuse_v2, of "Generation gp" E self a log]
  by (simp add: v2_call_ok_def)



subsection \<open>The trace stage\<close>

lemma map_of_dict_set [simp]: "map_of (dict_set d k v) = (map_of d)(k \<mapsto> v)"
  by (simp add: dict_set_def update_conv')

lemma keys_dict_set [simp]: "set (dict_keys (dict_set d k v)) = insert k (set (dict_keys d))"
  using dom_update [of k v d] by (simp add: dict_set_def dict_keys_def)

lemma keys_dict_pop: "set (dict_keys (snd (dict_pop d k v))) = set (dict_keys d) - {k}"
  by (auto simp add: dict_pop_def dict_keys_def delete_keys)

lemma keys_set_if_truthy:
  "set (dict_keys (set_if_truthy d k v)) \<subseteq> insert k (set (dict_keys d))"
  by (auto simp: set_if_truthy_def)

lemma keys_record_cache_hit:
  "set (dict_keys (snd (record_cache_hit self kw d))) \<subseteq> insert ''cache_hit'' (set (dict_keys d))"
  by (auto simp: record_cache_hit_def Let_def)

lemma add_debug_metadata_Inr:
  assumes "add_debug_metadata d md tp0 = Inr tp1"
  shows "(\<forall>j. j \<noteq> ''metadata'' \<longrightarrow> map_of tp1 j = map_of tp0 j) \<and>
         (map_of tp1 ''metadata'' \<noteq> None \<longrightarrow> debug_enabled d \<or> map_of tp0 ''metadata'' \<noteq> None)"
  using assms
  by (auto simp add: add_debug_metadata_def bindE_eq_Inr split: if_splits option.splits)

lemma keys_set_if_truthyD:
  "k \<in> set (dict_keys (set_if_truthy d j v)) \<Longrightarrow> k = j \<or> k \<in> set (dict_keys d)"
  using keys_set_if_truthy by fastforce

lemma keys_record_cache_hitD:
  "k \<in> set (dict_keys (snd (record_cache_hit self kw d))) \<Longrightarrow>
   k = ''cache_hit'' \<or> k \<in> set (dict_keys d)"
  using keys_record_cache_hit by fastforce

lemma v2_extend_metadata_keys:
  assumes "v2_extend_metadata E self a tags cm1 = Inr (tags', cm2, kw)"
  shows "set (dict_keys cm2) \<subseteq> set (dict_keys cm1) \<union>
           {''litellm_response_cost'', ''hidden_params'', ''api_base'',
            ''vertex_location'', ''aws_region_name'', ''cache_hit''}"
  using assms
  by (auto simp add: v2_extend_metadata_def Let_def bindE_eq_Inr case_prod_beta
        split: if_split_asm dest!: keys_record_cache_hitD keys_set_if_truthyD)

lemma v2_trace_stage_Inr:
  assumes "v2_trace_stage E self a = Inr st"
    and "v2_collect E self (arg_kwargs a) (py_or (arg_metadata a) (PDict [])) =
           Inr (tags, eu, pmm, cm0)"
    and "pop_control_fields (arg_litellm_call_id a) cm0 = (c, cm)"
  shows "\<exists>tp0 cm1 tp1.
           build_trace_params E a c eu cm = Inr (tp0, cm1) \<and>
           add_debug_metadata (debug c) (py_or (arg_metadata a) (PDict [])) tp0 = Inr tp1 \<and>
           (\<forall>j. j \<noteq> ''tags'' \<longrightarrow> map_of (st_trace_params st) j = map_of tp1 j) \<and>
           (map_of (st_trace_params st) ''tags'' \<noteq> None \<longrightarrow>
              existing_trace_id c = PNone \<or> map_of tp1 ''tags'' \<noteq> None) \<and>
           st_mask_input st = mask_input c \<and> st_mask_output st = mask_output c \<and>
           set (dict_keys (st_clean_metadata st)) \<subseteq> set (dict_keys cm1) \<union>
             {''litellm_response_cost'', ''hidden_params'', ''api_base'',
              ''vertex_location'', ''aws_region_name'', ''cache_hit''}"
proof -
  from assms obtain tp0 cm1 tp1 tags' cm2 kw where
    b: "build_trace_params E a c eu cm = Inr (tp0, cm1)"
    and d: "add_debug_metadata (debug c) (py_or (arg_metadata a) (PDict [])) tp0 = Inr tp1"
    and e: "v2_extend_metadata E self a tags cm1 = Inr (tags', cm2, kw)"
    and tp: "st_trace_params st =
        (if supports_tags self \<and> existing_trace_id c = PNone
         then dict_set tp1 ''tags'' tags' else tp1)"
    and cm: "st_clean_metadata st = cm2"
    and m: "st_mask_input st = mask_input c" "st_mask_output st = mask_output c"
    by (auto simp add: v2_trace_stage_def Let_def bindE_eq_Inr)
  from v2_extend_metadata_keys [OF e] b d tp cm m show ?thesis by auto
qed

lemma v2_trace_stage_collect:
  assumes "v2_trace_stage E self a = Inr st"
  shows "\<exists>tags eu pmm cm0.
           v2_collect E self (arg_kwargs a) (py_or (arg_metadata a) (PDict [])) =
             Inr (tags, eu, pmm, cm0)"
  using assms by (auto simp add: v2_trace_stage_def Let_def bindE_eq_Inr)



subsection \<open>The trace parameters\<close>

lemma map_of_dict_pop: "map_of (snd (dict_pop d k v)) = (map_of d)(k := None)"
  by (simp add: dict_pop_def delete_conv')

lemma keys_iff: "(k \<in> set (dict_keys d)) = (map_of d k \<noteq> None)"
  by (simp add: dict_keys_def map_of_eq_None_iff)

lemma lift_trace_keys_other:
  "\<forall>k \<in> set ks. remove_all ''trace_'' k \<noteq> j \<Longrightarrow>
   map_of (fst (lift_trace_keys ks (tp, cm))) j = map_of tp j"
  by (induction ks arbitrary: tp cm) (auto simp add: case_prod_beta)

lemma lift_trace_keys_clean:
  "set (dict_keys (snd (lift_trace_keys ks (tp, cm)))) = set (dict_keys cm) - set ks"
  by (induction ks arbitrary: tp cm) (auto simp add: case_prod_beta keys_dict_pop)

lemma new_trace_params_fields:
  assumes "new_trace_params tid tname sid eu cm inp outp mi mo level = (tp, cm')"
  shows "(level = ''ERROR'' \<longrightarrow> map_of tp ''status_message'' = Some outp) \<and>
         (level \<noteq> ''ERROR'' \<longrightarrow> map_of tp ''output'' = Some (masked mo outp)) \<and>
         (\<forall>j. (\<forall>k \<in> set (dict_keys cm). prefix ''trace_'' k \<longrightarrow> remove_all ''trace_'' k \<noteq> j) \<longrightarrow>
            (j = ''input'' \<longrightarrow> map_of tp j = Some (masked mi inp)) \<and>
            (j = ''output'' \<and> level = ''ERROR'' \<longrightarrow> map_of tp j = None) \<and>
            (j = ''status_message'' \<and> level \<noteq> ''ERROR'' \<longrightarrow> map_of tp j = None)) \<and>
         (\<forall>k \<in> set (dict_keys cm'). \<not> prefix ''trace_'' k \<and> k \<in> set (dict_keys cm))"
proof -
  let ?cm1 = "snd (dict_pop cm ''trace_version'' (dict_get cm ''version'' PNone))"
  let ?ks = "filter (prefix ''trace_'') (dict_keys ?cm1)"
  let ?tp0 = "[(''id'', tid), (''name'', tname), (''session_id'', sid),
               (''input'', masked mi inp),
               (''version'', fst (dict_pop cm ''trace_version'' (dict_get cm ''version'' PNone))),
               (''user_id'', eu)]"
  let ?l = "lift_trace_keys ?ks (?tp0, ?cm1)"
  from assms have tp: "tp = (if level = ''ERROR'' then dict_set (fst ?l) ''status_message'' outp
                            else dict_set (fst ?l) ''output'' (masked mo outp))"
    and cm': "cm' = snd ?l"
    by (auto simp add: new_trace_params_def case_prod_beta)
  have sub: "set ?ks \<subseteq> {k \<in> set (dict_keys cm). prefix ''trace_'' k}"
    by (auto simp add: keys_dict_pop)
  have other: "\<And>j. \<forall>k \<in> set (dict_keys cm). prefix ''trace_'' k \<longrightarrow> remove_all ''trace_'' k \<noteq> j \<Longrightarrow>
      map_of (fst ?l) j = map_of ?tp0 j"
    by (rule lift_trace_keys_other) (use sub in blast)
  have clean: "\<forall>k \<in> set (dict_keys cm'). \<not> prefix ''trace_'' k \<and> k \<in> set (dict_keys cm)"
    unfolding cm' lift_trace_keys_clean by (auto simp add: keys_dict_pop)
  show ?thesis using other clean unfolding tp by auto
qed


lemma patch_loop_Inr:
  "patch_loop ks (tp, cm) = Inr (tp', cm') \<Longrightarrow>
     (\<forall>j v. map_of tp' j = Some v \<longrightarrow>
        map_of tp j = Some v \<or>
        (\<exists>k. PStr k \<in> set ks \<and> remove_all ''trace_'' k = j \<and> map_of cm k = Some v)) \<and>
     (\<forall>k v. map_of cm' k = Some v \<longrightarrow> map_of cm k = Some v) \<and>
     (\<forall>j v. map_of tp j = Some v \<longrightarrow> map_of tp' j = Some v)"
proof (induction ks arbitrary: tp cm)
  case Nil
  then show ?case by simp
next
  case (Cons key ks)
  from Cons.prems obtain k where key: "key = PStr k"
    by (cases key) simp_all
  let ?j = "remove_all ''trace_'' k"
  let ?cm1 = "snd (dict_pop cm k PNone)"
  let ?v = "fst (dict_pop cm k PNone)"
  have cm1: "\<And>x v. map_of ?cm1 x = Some v \<Longrightarrow> map_of cm x = Some v"
    by (simp add: map_of_dict_pop split: if_splits)
  define tp1 where "tp1 = (if ?j \<in> set (dict_keys tp) \<or> ?v = PNone then tp else dict_set tp ?j ?v)"
  define cm2 where "cm2 = (if ?j \<in> set (dict_keys tp) then cm else ?cm1)"
  from Cons.prems key have step: "patch_loop ks (tp1, cm2) = Inr (tp', cm')"
    by (auto simp add: Let_def case_prod_beta tp1_def cm2_def split: if_splits)
  have cm2: "\<And>x v. map_of cm2 x = Some v \<Longrightarrow> map_of cm x = Some v"
    using cm1 by (simp add: cm2_def split: if_splits)
  have tp1_src: "\<And>j v. map_of tp1 j = Some v \<Longrightarrow>
      map_of tp j = Some v \<or> (?j = j \<and> map_of cm k = Some v)"
    by (auto simp add: tp1_def dict_pop_def dict_get_def split: if_splits option.splits)
  have tp1_keep: "\<And>j v. map_of tp j = Some v \<Longrightarrow> map_of tp1 j = Some v"
    by (auto simp add: tp1_def keys_iff)
  from Cons.IH [OF step]
  have 1: "\<And>j v. map_of tp' j = Some v \<Longrightarrow>
             map_of tp1 j = Some v \<or>
             (\<exists>k. PStr k \<in> set ks \<and> remove_all ''trace_'' k = j \<and> map_of cm2 k = Some v)"
    and 2: "\<And>k v. map_of cm' k = Some v \<Longrightarrow> map_of cm2 k = Some v"
    and 3: "\<And>j v. map_of tp1 j = Some v \<Longrightarrow> map_of tp' j = Some v"
    by simp_all
  have a: "map_of tp j = Some w \<or>
           (\<exists>k. PStr k \<in> set (key # ks) \<and> remove_all ''trace_'' k = j \<and> map_of cm k = Some w)"
    if "map_of tp' j = Some w" for j w
  proof -
    from 1 [OF that] show ?thesis
    proof (elim disjE exE conjE)
      assume "map_of tp1 j = Some w"
      from tp1_src [OF this] show ?thesis using key by auto
    next
      fix k'
      assume "PStr k' \<in> set ks" "remove_all ''trace_'' k' = j" "map_of cm2 k' = Some w"
      with cm2 [of k' w] show ?thesis by auto
    qed
  qed
  have b: "map_of cm x = Some w" if "map_of cm' x = Some w" for x w
    using 2 [OF that] by (rule cm2)
  have c: "map_of tp' j = Some w" if "map_of tp j = Some w" for j w
    using tp1_keep [OF that] by (rule 3)
  from a b c show ?case by blast
qed


lemma dict_get_delete:
  "dict_get (AList.delete k' d) k v = (if k = k' then v else dict_get d k v)"
  by (simp add: dict_get_def delete_conv')

lemma map_of_fold_delete:
  "map_of (fold AList.delete ks d) k = (if k \<in> set ks then None else map_of d k)"
  by (induction ks arbitrary: d) (auto simp add: delete_conv')

lemma pop_control_fields_snd:
  "snd (pop_control_fields i d) = fold AList.delete control_keys d"
  unfolding pop_control_fields_def dict_pop_def prod.case snd_conv control_keys_def
    fold.simps comp_def id_apply
  by (rule refl)

lemma map_of_pop_control_fields:
  "map_of (snd (pop_control_fields i d)) k =
     (if k \<in> set control_keys then None else map_of d k)"
  unfolding pop_control_fields_snd by (rule map_of_fold_delete)

lemma pop_control_fields_fst:
  "existing_trace_id (fst (pop_control_fields i d)) = dict_get d ''existing_trace_id'' PNone"
  "update_trace_keys (fst (pop_control_fields i d)) = dict_get d ''update_trace_keys'' (PList [])"
  "mask_input (fst (pop_control_fields i d)) = dict_get d ''mask_input'' (PBool False)"
  "mask_output (fst (pop_control_fields i d)) = dict_get d ''mask_output'' (PBool False)"
  "debug (fst (pop_control_fields i d)) = dict_get d ''debug_langfuse'' PNone"
  unfolding pop_control_fields_def dict_pop_def prod.case fst_conv control.simps
  by (simp_all add: dict_get_delete)


lemma patch_trace_params_Inr:
  assumes "patch_trace_params ex utk cm inp outp mi mo = Inr (tp, cm')"
  shows "\<exists>ks hi ho.
     py_iter utk = Inr ks \<and> py_contains ''input'' utk = Inr hi \<and>
     py_contains ''output'' utk = Inr ho \<and>
     map_of tp ''id'' = Some ex \<and>
     (hi \<longrightarrow> map_of tp ''input'' = Some (masked mi inp)) \<and>
     (ho \<longrightarrow> map_of tp ''output'' = Some (masked mo outp)) \<and>
     (\<forall>j v. map_of tp j = Some v \<longrightarrow>
        j = ''id'' \<or> (j = ''input'' \<and> hi \<and> v = masked mi inp) \<or>
        (j = ''output'' \<and> ho \<and> v = masked mo outp) \<or>
        (\<exists>k. PStr k \<in> set ks \<and> remove_all ''trace_'' k = j \<and> map_of cm k = Some v)) \<and>
     (\<forall>k \<in> set (dict_keys cm'). \<not> prefix ''trace_'' k \<and> k \<in> set (dict_keys cm))"
proof -
  from assms obtain ks where it: "py_iter utk = Inr ks"
    by (auto simp add: patch_trace_params_def bindE_eq_Inr)
  with assms obtain tp1 cm1 where loop: "patch_loop ks ([(''id'', ex)], cm) = Inr (tp1, cm1)"
    by (auto simp add: patch_trace_params_def bindE_eq_Inr)
  with assms it obtain hi where hi: "py_contains ''input'' utk = Inr hi"
    by (auto simp add: patch_trace_params_def bindE_eq_Inr Let_def)
  with assms it loop obtain ho where ho: "py_contains ''output'' utk = Inr ho"
    by (auto simp add: patch_trace_params_def bindE_eq_Inr Let_def)
  define tp2 where "tp2 = (if hi then dict_set tp1 ''input'' (masked mi inp) else tp1)"
  from assms it loop hi ho
  have tp: "tp = (if ho then dict_set tp2 ''output'' (masked mo outp) else tp2)"
    and cm': "cm' = drop_trace_keys cm1"
    by (auto simp add: patch_trace_params_def Let_def tp2_def)
  from patch_loop_Inr [OF loop]
  have src: "\<And>j v. map_of tp1 j = Some v \<Longrightarrow>
        map_of [(''id'', ex)] j = Some v \<or>
        (\<exists>k. PStr k \<in> set ks \<and> remove_all ''trace_'' k = j \<and> map_of cm k = Some v)"
    and sub: "\<And>k v. map_of cm1 k = Some v \<Longrightarrow> map_of cm k = Some v"
    and keep: "\<And>j v. map_of [(''id'', ex)] j = Some v \<Longrightarrow> map_of tp1 j = Some v"
    by simp_all
  have id1: "map_of tp1 ''id'' = Some ex" by (rule keep) simp
  have id: "map_of tp ''id'' = Some ex" unfolding tp tp2_def using id1 by simp
  have inp: "hi \<longrightarrow> map_of tp ''input'' = Some (masked mi inp)" unfolding tp tp2_def by simp
  have outp: "ho \<longrightarrow> map_of tp ''output'' = Some (masked mo outp)" unfolding tp by simp
  have fields: "j = ''id'' \<or> (j = ''input'' \<and> hi \<and> v = masked mi inp) \<or>
        (j = ''output'' \<and> ho \<and> v = masked mo outp) \<or>
        (\<exists>k. PStr k \<in> set ks \<and> remove_all ''trace_'' k = j \<and> map_of cm k = Some v)"
    if "map_of tp j = Some v" for j v
  proof -
    from that have "(j = ''output'' \<and> ho \<and> v = masked mo outp) \<or> map_of tp2 j = Some v"
      unfolding tp by (simp split: if_splits)
    then have "(j = ''output'' \<and> ho \<and> v = masked mo outp) \<or>
        (j = ''input'' \<and> hi \<and> v = masked mi inp) \<or> map_of tp1 j = Some v"
      unfolding tp2_def by (auto split: if_splits)
    then show ?thesis using src [of j v] by (auto split: if_splits)
  qed
  have clean: "\<forall>k \<in> set (dict_keys cm'). \<not> prefix ''trace_'' k \<and> k \<in> set (dict_keys cm)"
  proof
    fix k
    assume "k \<in> set (dict_keys cm')"
    then have p: "\<not> prefix ''trace_'' k" and "k \<in> set (dict_keys cm1)"
      unfolding cm' by (auto simp add: drop_trace_keys_def dict_keys_def)
    then obtain v where "map_of cm1 k = Some v" by (auto simp add: keys_iff)
    from sub [OF this] p show "\<not> prefix ''trace_'' k \<and> k \<in> set (dict_keys cm)"
      by (simp add: keys_iff)
  qed
  from it hi ho id inp outp fields clean show ?thesis by blast
qed


lemma build_trace_params_new:
  assumes "build_trace_params E a c eu cm = Inr (tp0, cm1)" and "existing_trace_id c = PNone"
  shows "\<exists>tname. new_trace_params (trace_id c) tname (session_id c) eu
           (redact_user_api_key_info E cm) (arg_input a) (arg_output a)
           (mask_input c) (mask_output c) (arg_level a) = (tp0, cm1)"
  using assms by (auto simp add: build_trace_params_def Let_def bindE_eq_Inr split: if_splits)

lemma build_trace_params_patch:
  assumes "build_trace_params E a c eu cm = Inr (tp0, cm1)" and "existing_trace_id c \<noteq> PNone"
  shows "patch_trace_params (existing_trace_id c) (update_trace_keys c)
           (redact_user_api_key_info E cm) (arg_input a) (arg_output a)
           (mask_input c) (mask_output c) = Inr (tp0, cm1)"
  using assms by (auto simp add: build_trace_params_def Let_def bindE_eq_Inr split: if_splits)

lemma redact_keys:
  "redact_adds_no_key E \<Longrightarrow> k \<in> set (dict_keys (redact_user_api_key_info E cm)) \<Longrightarrow>
   k \<in> set (dict_keys cm)"
  unfolding redact_adds_no_key_def by blast

lemma build_generation_params_io:
  assumes "build_generation_params E self a st = Inr (gp0, gid, cm)"
  shows "map_of gp0 ''input'' = Some (masked (st_mask_input st) (arg_input a)) \<and>
         map_of gp0 ''output'' = Some (masked (st_mask_output st) (arg_output a)) \<and>
         map_of gp0 ''status_message'' = None"
  using assms
  by (auto simp add: build_generation_params_def Let_def bindE_eq_Inr case_prod_beta)

lemma finish_generation_params_io:
  assumes "gp1 = gp0 \<or> (\<exists>p. gp1 = dict_set gp0 ''prompt'' p)"
  shows "map_of (finish_generation_params self a st gp1) ''input'' = map_of gp0 ''input'' \<and>
         map_of (finish_generation_params self a st gp1) ''output'' = map_of gp0 ''output'' \<and>
         map_of (finish_generation_params self a st gp1) ''status_message'' =
           (if arg_output a \<noteq> PNone \<and> is_str (arg_output a) \<and> arg_level a = ''ERROR''
            then Some (arg_output a) else map_of gp0 ''status_message'')"
  using assms by (auto simp add: finish_generation_params_def Let_def)



subsection \<open>What is submitted\<close>

lemma masked_cases: "masked m x = x \<or> masked m x = REDACTED"
  by (simp add: masked_def)

lemma masked_truthy: "py_truthy m \<Longrightarrow> masked m x = REDACTED"
  by (simp add: masked_def)

lemma submitted_trace_fields:
  assumes collect: "v2_collect E self (arg_kwargs a) (py_or (arg_metadata a) (PDict [])) =
                      Inr (tags, eu, pmm, cm0)"
    and pop: "pop_control_fields (arg_litellm_call_id a) cm0 = (c, cm)"
    and sub: "Trace tp \<in> set (new_calls (log_langfuse_v2 E self a) log)"
  shows "\<exists>st tp0 cm1.
           v2_trace_stage E self a = Inr st \<and> tp = st_trace_params st \<and>
           build_trace_params E a c eu cm = Inr (tp0, cm1) \<and>
           (\<forall>j. j \<noteq> ''tags'' \<and> j \<noteq> ''metadata'' \<longrightarrow> map_of tp j = map_of tp0 j) \<and>
           (map_of tp ''metadata'' \<noteq> None \<longrightarrow>
              debug_enabled (debug c) \<or> map_of tp0 ''metadata'' \<noteq> None) \<and>
           (map_of tp ''tags'' \<noteq> None \<longrightarrow>
              existing_trace_id c = PNone \<or> map_of tp0 ''tags'' \<noteq> None) \<and>
           st_mask_input st = mask_input c \<and> st_mask_output st = mask_output c \<and>
           set (dict_keys (st_clean_metadata st)) \<subseteq> set (dict_keys cm1) \<union>
             {''litellm_response_cost'', ''hidden_params'', ''api_base'',
              ''vertex_location'', ''aws_region_name'', ''cache_hit''}"
proof -
  from v2_trace_submitted [OF sub] obtain st where
    st: "v2_trace_stage E self a = Inr st" and tp: "tp = st_trace_params st" by blast
  from v2_trace_stage_Inr [OF st collect pop] obtain tp0 cm1 tp1 where
    b: "build_trace_params E a c eu cm = Inr (tp0, cm1)"
    and d: "add_debug_metadata (debug c) (py_or (arg_metadata a) (PDict [])) tp0 = Inr tp1"
    and t: "\<forall>j. j \<noteq> ''tags'' \<longrightarrow> map_of (st_trace_params st) j = map_of tp1 j"
    and tg: "map_of (st_trace_params st) ''tags'' \<noteq> None \<longrightarrow>
              existing_trace_id c = PNone \<or> map_of tp1 ''tags'' \<noteq> None"
    and m: "st_mask_input st = mask_input c" "st_mask_output st = mask_output c"
    and k: "set (dict_keys (st_clean_metadata st)) \<subseteq> set (dict_keys cm1) \<union>
             {''litellm_response_cost'', ''hidden_params'', ''api_base'',
              ''vertex_location'', ''aws_region_name'', ''cache_hit''}"
    by blast
  from add_debug_metadata_Inr [OF d]
  have d1: "\<forall>j. j \<noteq> ''metadata'' \<longrightarrow> map_of tp1 j = map_of tp0 j"
    and d2: "map_of tp1 ''metadata'' \<noteq> None \<longrightarrow>
               debug_enabled (debug c) \<or> map_of tp0 ''metadata'' \<noteq> None"
    by simp_all
  have 1: "\<forall>j. j \<noteq> ''tags'' \<and> j \<noteq> ''metadata'' \<longrightarrow> map_of tp j = map_of tp0 j"
    using t d1 tp by simp
  have 2: "map_of tp ''metadata'' \<noteq> None \<longrightarrow>
              debug_enabled (debug c) \<or> map_of tp0 ''metadata'' \<noteq> None"
    using t d2 tp by simp
  have 3: "map_of tp ''tags'' \<noteq> None \<longrightarrow>
              existing_trace_id c = PNone \<or> map_of tp0 ''tags'' \<noteq> None"
    using tg d1 tp by simp
  from st tp b 1 2 3 m k show ?thesis by blast
qed

lemma submitted_generation_fields:
  assumes sub: "Generation gp \<in> set (new_calls (log_langfuse_v2 E self a) log)"
  shows "\<exists>st. v2_trace_stage E self a = Inr st \<and>
           map_of gp ''input'' = Some (masked (st_mask_input st) (arg_input a)) \<and>
           map_of gp ''output'' = Some (masked (st_mask_output st) (arg_output a)) \<and>
           map_of gp ''status_message'' =
             (if arg_output a \<noteq> PNone \<and> is_str (arg_output a) \<and> arg_level a = ''ERROR''
              then Some (arg_output a) else None)"
proof -
  from v2_generation_submitted [OF sub] obtain st gp0 gid cm gp1 where
    st: "v2_trace_stage E self a = Inr st"
    and b: "build_generation_params E self a st = Inr (gp0, gid, cm)"
    and g: "gp1 = gp0 \<or> (\<exists>p. gp1 = dict_set gp0 ''prompt'' p)"
    and gp: "gp = finish_generation_params self a st gp1"
    by blast
  from build_generation_params_io [OF b] finish_generation_params_io [OF g, of self a st] st
  show ?thesis unfolding gp by auto
qed






end
